theory Spec2Isabelle
  imports Complex_Main "HOL-Library.AList"
begin

section \<open>JavaScript values\<close>

text \<open>
  A JavaScript number is a finite value, \<open>NaN\<close> or one of the two infinities. Finite
  doubles are embedded in the rationals: \<open>Math.round\<close>, \<open>Math.min\<close>, \<open>Math.max\<close> and
  the comparisons used by \<open>Position\<close> are exact on them, and \<open>-0\<close> and \<open>+0\<close> are not
  told apart by \<open>!==\<close>.
\<close>

datatype jsnum = Finite rat | NaN | PosInfinity | NegInfinity

datatype jsval = Undefined | Null | Num jsnum | Str string | Bool bool

text \<open>\<open>Number.isFinite(v)\<close>\<close>

fun isFinite :: "jsval \<Rightarrow> bool" where
  "isFinite (Num (Finite q)) = True"
| "isFinite v = False"

text \<open>\<open>Number.isInteger(v)\<close>\<close>

fun isInteger :: "jsval \<Rightarrow> bool" where
  "isInteger (Num (Finite q)) = (of_int \<lfloor>q\<rfloor> = q)"
| "isInteger v = False"

text \<open>\<open>typeof v === 'number'\<close>\<close>

fun is_number :: "jsval \<Rightarrow> bool" where
  "is_number (Num n) = True"
| "is_number v = False"

text \<open>\<open>typeof v === 'string'\<close>\<close>

fun is_string :: "jsval \<Rightarrow> bool" where
  "is_string (Str s) = True"
| "is_string v = False"

text \<open>\<open>a !== b\<close>: \<open>NaN\<close> differs from everything, itself included.\<close>

definition strict_ne :: "jsval \<Rightarrow> jsval \<Rightarrow> bool" where
  "strict_ne a b = (a \<noteq> b \<or> a = Num NaN)"

text \<open>\<open>Math.round\<close> on a number: the nearest integer, ties towards \<open>+\<infinity>\<close>.\<close>

fun num_round :: "jsnum \<Rightarrow> jsnum" where
  "num_round (Finite q) = Finite (of_int \<lfloor>q + 1 / 2\<rfloor>)"
| "num_round n = n"

text \<open>
  \<open>Math.round(v)\<close>. Every call site of the source guards the argument with a number
  test, so the coercion of other values is not reached; it is \<open>NaN\<close> here.
\<close>

fun Math_round :: "jsval \<Rightarrow> jsval" where
  "Math_round (Num n) = Num (num_round n)"
| "Math_round v = Num NaN"

fun num_le :: "jsnum \<Rightarrow> jsnum \<Rightarrow> bool" where
  "num_le (Finite a) (Finite b) = (a \<le> b)"
| "num_le NegInfinity b = (b \<noteq> NaN)"
| "num_le a PosInfinity = (a \<noteq> NaN)"
| "num_le a b = False"

text \<open>\<open>Math.min(a, b)\<close> and \<open>Math.max(a, b)\<close> on numbers: \<open>NaN\<close> is contagious.\<close>

definition Math_min :: "jsnum \<Rightarrow> jsnum \<Rightarrow> jsnum" where
  "Math_min a b = (if a = NaN \<or> b = NaN then NaN else if num_le a b then a else b)"

definition Math_max :: "jsnum \<Rightarrow> jsnum \<Rightarrow> jsnum" where
  "Math_max a b = (if a = NaN \<or> b = NaN then NaN else if num_le a b then b else a)"

text \<open>Truthiness, for \<open>a || b\<close>, and the nullish test, for \<open>a ?? b\<close>.\<close>

fun truthy :: "jsval \<Rightarrow> bool" where
  "truthy Undefined = False"
| "truthy Null = False"
| "truthy (Num (Finite q)) = (q \<noteq> 0)"
| "truthy (Num NaN) = False"
| "truthy (Num n) = True"
| "truthy (Str s) = (s \<noteq> [])"
| "truthy (Bool b) = b"

definition js_or :: "jsval \<Rightarrow> jsval \<Rightarrow> jsval" where
  "js_or a b = (if truthy a then a else b)"

definition nullish :: "jsval \<Rightarrow> jsval \<Rightarrow> jsval" where
  "nullish a b = (if a = Undefined \<or> a = Null then b else a)"

section \<open>Objects\<close>

text \<open>
  A plain object is an association list in insertion order with distinct keys. Reading a
  missing property gives \<open>undefined\<close>; assigning replaces in place or appends.
\<close>

type_synonym jsobj = "(string \<times> jsval) list"

definition get_prop :: "jsobj \<Rightarrow> string \<Rightarrow> jsval" where
  "get_prop ob k = (case map_of ob k of Some v \<Rightarrow> v | None \<Rightarrow> Undefined)"

definition set_prop :: "jsobj \<Rightarrow> string \<Rightarrow> jsval \<Rightarrow> jsobj" where
  "set_prop ob k v = AList.update k v ob"

definition delete_prop :: "jsobj \<Rightarrow> string \<Rightarrow> jsobj" where
  "delete_prop ob k = AList.delete k ob"

text \<open>\<open>Object.keys(ob)\<close> and the keys visited by \<open>for (const key in ob)\<close>.\<close>

definition Object_keys :: "jsobj \<Rightarrow> string list" where
  "Object_keys ob = map fst ob"

text \<open>\<open>Object.assign(target, source)\<close>, returning the updated target.\<close>

definition Object_assign :: "jsobj \<Rightarrow> jsobj \<Rightarrow> jsobj" where
  "Object_assign target source =
     fold (\<lambda>k t. set_prop t k (get_prop source k)) (Object_keys source) target"

section \<open>Constants\<close>

definition transformOrigins :: "string list" where
  "transformOrigins = [''top left'', ''top center'', ''top right'', ''center left'', ''center'',
     ''center right'', ''bottom left'', ''bottom center'', ''bottom right'']"

text \<open>The seventeen properties destructured by name in \<open>#updatePosition\<close>.\<close>

definition positionKeys :: "string list" where
  "positionKeys = [''left'', ''top'', ''maxWidth'', ''maxHeight'', ''minWidth'', ''minHeight'',
     ''width'', ''height'', ''rotateX'', ''rotateY'', ''rotateZ'', ''scale'', ''transformOrigin'',
     ''translateX'', ''translateY'', ''translateZ'', ''zIndex'']"

section \<open>Collaborators of Position\<close>

text \<open>
  Modelled from the spec: \<open>PositionData\<close> (its class file is not among the sources). Every
  field starts as \<open>null\<close>, the transform origin as \<open>top left\<close>.
\<close>

definition PositionData_new :: jsobj where
  "PositionData_new =
     [(''height'', Null), (''left'', Null), (''maxHeight'', Null), (''maxWidth'', Null),
      (''minHeight'', Null), (''minWidth'', Null), (''rotateX'', Null), (''rotateY'', Null),
      (''rotateZ'', Null), (''scale'', Null), (''top'', Null), (''transformOrigin'', Str ''top left''),
      (''translateX'', Null), (''translateY'', Null), (''translateZ'', Null), (''width'', Null),
      (''zIndex'', Null)]"

text \<open>
  Modelled from the spec: \<open>PositionChangeSet\<close> (its class file is not among the sources):
  one flag per field, \<open>set(value)\<close> writing all of them and \<open>hasChange()\<close> reading any.
\<close>

record changeset =
  cs_left :: bool
  cs_top :: bool
  cs_width :: bool
  cs_height :: bool
  cs_maxWidth :: bool
  cs_maxHeight :: bool
  cs_minWidth :: bool
  cs_minHeight :: bool
  cs_zIndex :: bool
  cs_transform :: bool
  cs_transformOrigin :: bool

definition changeset_set :: "bool \<Rightarrow> changeset" where
  "changeset_set b = \<lparr>cs_left = b, cs_top = b, cs_width = b, cs_height = b, cs_maxWidth = b,
     cs_maxHeight = b, cs_minWidth = b, cs_minHeight = b, cs_zIndex = b, cs_transform = b,
     cs_transformOrigin = b\<rparr>"

definition hasChange :: "changeset \<Rightarrow> bool" where
  "hasChange c = (cs_left c \<or> cs_top c \<or> cs_width c \<or> cs_height c \<or> cs_maxWidth c \<or>
     cs_maxHeight c \<or> cs_minWidth c \<or> cs_minHeight c \<or> cs_zIndex c \<or> cs_transform c \<or>
     cs_transformOrigin c)"

text \<open>
  The part of an \<open>HTMLElement\<close> that \<open>Position\<close> reads: its identity, whether it is
  connected, four inline styles, the measured box and the computed style.
\<close>

record element =
  el_id :: nat
  isConnected :: bool
  style_width :: string
  style_height :: string
  style_left :: string
  style_top :: string
  offsetWidth :: jsval
  offsetHeight :: jsval
  computed :: jsobj

text \<open>
  Modelled from the spec: \<open>StyleCache\<close> (its class file is not among the sources) memoizes
  the computed style of one element, keyed by the element's identity.
\<close>

record style_cache =
  sc_el :: "nat option"
  sc_computed :: jsobj

definition StyleCache_new :: style_cache where
  "StyleCache_new = \<lparr>sc_el = None, sc_computed = []\<rparr>"

definition StyleCache_hasData :: "style_cache \<Rightarrow> element \<Rightarrow> bool" where
  "StyleCache_hasData sc el = (sc_el sc = Some (el_id el))"

definition StyleCache_update :: "element \<Rightarrow> style_cache" where
  "StyleCache_update el = \<lparr>sc_el = Some (el_id el), sc_computed = computed el\<rparr>"

text \<open>
  The parent of a position: nothing, an element, or an application object with
  \<open>options.positionable\<close> (when it is a boolean), \<open>elementTarget\<close> (when it is an element)
  and \<open>reactive.minimized\<close>.
\<close>

record app =
  positionable :: "bool option"
  elementTarget :: "element option"
  minimized :: bool

datatype parent = NoParent | ElementParent element | AppParent app

text \<open>
  Modelled from the spec: \<open>UpdateElementManager\<close> (its file is not among the sources).
  \<open>add(el, callback)\<close> registers the bound callback of a position for the element once
  per frame and returns a promise; each call is counted.
\<close>

record update_manager =
  um_callbacks :: "(nat \<times> nat) list"
  um_requests :: nat

definition UpdateElementManager_add :: "element \<Rightarrow> nat \<Rightarrow> update_manager \<Rightarrow> nat \<times> update_manager" where
  "UpdateElementManager_add el cb um =
     (um_requests um,
      um\<lparr>um_callbacks := (if (el_id el, cb) \<in> set (um_callbacks um) then um_callbacks um
                           else um_callbacks um @ [(el_id el, cb)]),
         um_requests := Suc (um_requests um)\<rparr>)"

section \<open>Position\<close>

text \<open>The object handed to every validator (\<open>s_VALIDATION_DATA\<close>).\<close>

record validation_data =
  vd_position :: jsobj
  vd_parent :: parent
  vd_el :: element
  vd_computed :: jsobj
  vd_transforms :: jsobj
  vd_height :: jsval
  vd_width :: jsval
  vd_marginLeft :: jsval
  vd_marginTop :: jsval
  vd_maxHeight :: jsval
  vd_maxWidth :: jsval
  vd_minHeight :: jsval
  vd_minWidth :: jsval

text \<open>A validator returns adjusted position data, or \<open>null\<close> (\<open>None\<close>) to veto.\<close>

type_synonym validator = "validation_data \<Rightarrow> jsobj option"

record initial_helper =
  getLeft :: "jsval \<Rightarrow> jsval"
  getTop :: "jsval \<Rightarrow> jsval"

text \<open>
  The private state of a \<open>Position\<close> instance. \<open>ident\<close> stands for the identity of the
  instance (and of its bound element-update callback); \<open>subscriptions\<close> counts the handlers
  and \<open>delivered\<close> logs every copy of the data handed to one of them; \<open>transforms\<close> holds
  the values assigned to the \<open>Transforms\<close> helper.
\<close>

record position =
  ident :: nat
  data :: jsobj
  currentAnimationKeys :: "string list"
  dataSaved :: "(string \<times> jsobj) list"
  defaultData :: "jsobj option"
  dimensionData :: jsobj
  positionChangeSet :: changeset
  calculateTransform :: bool
  initialHelper :: "initial_helper option"
  transformSubscribed :: bool
  parent :: parent
  styleCache :: style_cache
  subscriptions :: nat
  delivered :: "jsobj list"
  transforms :: jsobj
  updateElementPromise :: "nat option"
  validators :: "validator list"


subsection \<open>The constructor\<close>

definition seed_rounded :: "string \<Rightarrow> jsobj \<Rightarrow> jsobj \<Rightarrow> jsobj" where
  "seed_rounded k options d =
     (let v = get_prop options k in
      if isFinite v \<or> v = Null then set_prop d k (if is_number v then Math_round v else v) else d)"

definition seed_size :: "string \<Rightarrow> jsobj \<Rightarrow> jsobj \<Rightarrow> jsobj" where
  "seed_size k options d =
     (let v = get_prop options k in
      if isFinite v \<or> v = Str ''auto'' \<or> v = Null
      then set_prop d k (if is_number v then Math_round v else v) else d)"

definition seed_transform :: "string \<Rightarrow> jsobj \<Rightarrow> jsobj \<Rightarrow> jsobj" where
  "seed_transform k options d =
     (let v = get_prop options k in if isFinite v \<or> v = Null then set_prop d k v else d)"

definition seed_transformOrigin :: "jsobj \<Rightarrow> jsobj \<Rightarrow> jsobj" where
  "seed_transformOrigin options d =
     (case get_prop options ''transformOrigin'' of
        Str s \<Rightarrow> if s \<in> set transformOrigins then set_prop d ''transformOrigin'' (Str s) else d
      | _ \<Rightarrow> d)"

text \<open>
  \<open>new Position(parent, options)\<close>: the numeric options, in the order of the source;
  \<open>options.initial\<close> and \<open>options.validator\<close> are the last two arguments, the validators in
  pipeline order.
\<close>

definition constructor_data :: "jsobj \<Rightarrow> jsobj" where
  "constructor_data options =
     (let d = PositionData_new;
          d = seed_size ''height'' options d;
          d = seed_rounded ''left'' options d;
          d = seed_rounded ''maxHeight'' options d;
          d = seed_rounded ''maxWidth'' options d;
          d = seed_rounded ''minHeight'' options d;
          d = seed_rounded ''minWidth'' options d;
          d = seed_transform ''rotateX'' options d;
          d = seed_transform ''rotateY'' options d;
          d = seed_transform ''rotateZ'' options d;
          d = seed_transform ''scale'' options d;
          d = seed_rounded ''top'' options d;
          d = seed_transformOrigin options d;
          d = seed_transform ''translateX'' options d;
          d = seed_transform ''translateY'' options d;
          d = seed_transform ''translateZ'' options d;
          d = seed_size ''width'' options d;
          d = seed_rounded ''zIndex'' options d
      in d)"

definition constructor_transforms :: "jsobj \<Rightarrow> jsobj" where
  "constructor_transforms options =
     (let t = [];
          t = seed_transform ''rotateX'' options t;
          t = seed_transform ''rotateY'' options t;
          t = seed_transform ''rotateZ'' options t;
          t = seed_transform ''scale'' options t;
          t = seed_transform ''translateX'' options t;
          t = seed_transform ''translateY'' options t;
          t = seed_transform ''translateZ'' options t
      in t)"

definition Position_new ::
  "nat \<Rightarrow> parent \<Rightarrow> jsobj \<Rightarrow> initial_helper option \<Rightarrow> validator list \<Rightarrow> position" where
  "Position_new i par options initial vs =
     \<lparr>ident = i,
      data = constructor_data options,
      currentAnimationKeys = [],
      dataSaved = [],
      defaultData = None,
      dimensionData =
        seed_size ''width'' options (seed_size ''height'' options
          [(''width'', Num (Finite 0)), (''height'', Num (Finite 0))]),
      positionChangeSet = changeset_set False,
      calculateTransform =
        (case get_prop options ''calculateTransform'' of Bool b \<Rightarrow> b | _ \<Rightarrow> False),
      initialHelper = initial,
      transformSubscribed = False,
      parent = par,
      styleCache = StyleCache_new,
      subscriptions = 0,
      delivered = [],
      transforms = constructor_transforms options,
      updateElementPromise = None,
      validators = vs\<rparr>"

subsection \<open>Notifying subscribers\<close>

text \<open>\<open>#updateSubscribers(data, changeSet)\<close>\<close>

definition updateSubscribers :: "position \<Rightarrow> position" where
  "updateSubscribers p =
     (let changeSet = positionChangeSet p in
      if \<not> hasChange changeSet then p
      else p\<lparr>delivered := delivered p @ replicate (subscriptions p) (data p),
             dimensionData :=
               (if cs_width changeSet \<or> cs_height changeSet
                then [(''width'', get_prop (data p) ''width''),
                      (''height'', get_prop (data p) ''height'')]
                else dimensionData p),
             positionChangeSet := changeset_set False\<rparr>)"

text \<open>\<open>subscribe(handler)\<close>: the handler is added and called with a copy of the data.\<close>

definition subscribe :: "position \<Rightarrow> position" where
  "subscribe p = p\<lparr>subscriptions := Suc (subscriptions p), delivered := delivered p @ [data p]\<rparr>"

subsection \<open>Validation: \<open>#updatePosition\<close>\<close>

text \<open>The width and height blocks: the updated object and the measured value.\<close>

definition up_size :: "string \<Rightarrow> jsval \<Rightarrow> jsval \<Rightarrow> string \<Rightarrow> jsobj \<Rightarrow> jsobj \<times> jsval" where
  "up_size style arg offset k cp =
     (if style = [] \<or> arg \<noteq> Undefined then
        (if arg = Str ''auto'' \<or> (get_prop cp k = Str ''auto'' \<and> arg \<noteq> Null)
         then (set_prop cp k (Str ''auto''), offset)
         else
           let newSize = (if isFinite arg then arg else get_prop cp k);
               v = (if isFinite newSize then Math_round newSize else offset)
           in (set_prop cp k v, v))
      else (cp, if isFinite (get_prop cp k) then get_prop cp k else offset))"

text \<open>The left and top blocks; \<open>initial\<close> is what the initial helper (or \<open>0\<close>) gives.\<close>

definition up_offset :: "string \<Rightarrow> jsval \<Rightarrow> jsval \<Rightarrow> string \<Rightarrow> jsobj \<Rightarrow> jsobj" where
  "up_offset style arg initial k cp =
     (if style = [] \<or> isFinite arg
      then (if isFinite arg then set_prop cp k arg else set_prop cp k initial)
      else cp)"

definition up_bound :: "string \<Rightarrow> jsobj \<Rightarrow> jsobj \<Rightarrow> jsobj" where
  "up_bound k position cp =
     (let v = get_prop position k in
      if isFinite v \<or> v = Null then set_prop cp k (if isFinite v then Math_round v else Null)
      else cp)"

definition up_transform :: "string \<Rightarrow> jsobj \<Rightarrow> jsobj \<Rightarrow> jsobj" where
  "up_transform k position cp =
     (let v = get_prop position k in if is_number v \<or> v = Null then set_prop cp k v else cp)"

text \<open>\<open>Math.max(0, Math.min(scale, 1000))\<close> for a number, \<open>null\<close> otherwise.\<close>

fun clamp_scale :: "jsval \<Rightarrow> jsval" where
  "clamp_scale (Num n) = Num (Math_max (Finite 0) (Math_min n (Finite 1000)))"
| "clamp_scale v = Null"

text \<open>\<open>transformOrigins.includes(v) ? v : null\<close>\<close>

fun valid_origin :: "jsval \<Rightarrow> jsval" where
  "valid_origin (Str s) = (if s \<in> set transformOrigins then Str s else Null)"
| "valid_origin v = Null"

definition up_scale :: "jsobj \<Rightarrow> jsobj \<Rightarrow> jsobj" where
  "up_scale position cp =
     (let v = get_prop position ''scale'' in
      if is_number v \<or> v = Null then set_prop cp ''scale'' (clamp_scale v) else cp)"

definition up_transformOrigin :: "jsobj \<Rightarrow> jsobj \<Rightarrow> jsobj" where
  "up_transformOrigin position cp =
     (let v = get_prop position ''transformOrigin'' in
      if is_string v \<or> v = Null then set_prop cp ''transformOrigin'' (valid_origin v) else cp)"

definition up_zIndex :: "jsobj \<Rightarrow> jsobj \<Rightarrow> jsobj" where
  "up_zIndex position cp =
     (let v = get_prop position ''zIndex'' in
      if is_number v \<or> v = Null
      then set_prop cp ''zIndex'' (if is_number v then Math_round v else v) else cp)"

text \<open>The validator loop: each entry is fed the previous result; \<open>null\<close> ends it.\<close>

fun run_validators :: "validator list \<Rightarrow> validation_data \<Rightarrow> jsobj \<Rightarrow> jsobj option" where
  "run_validators [] vd cp = Some cp"
| "run_validators (v # vs) vd cp =
     (case v (vd\<lparr>vd_position := cp\<rparr>) of
        None \<Rightarrow> None
      | Some cp' \<Rightarrow> run_validators vs vd cp')"

text \<open>
  The proposed position before validation, with the measured width and height:
  \<open>rest\<close> are the properties not destructured by name, \<open>this.get(rest)\<close> the current data
  laid over them.
\<close>

definition proposed :: "jsobj \<Rightarrow> element \<Rightarrow> position \<Rightarrow> jsobj \<times> jsval \<times> jsval" where
  "proposed position el p =
     (let rest = filter (\<lambda>kv. fst kv \<notin> set positionKeys) position;
          cp = Object_assign rest (data p);
          (cp, width) = up_size (style_width el) (get_prop position ''width'') (offsetWidth el) ''width'' cp;
          (cp, height) = up_size (style_height el) (get_prop position ''height'') (offsetHeight el) ''height'' cp;
          cp = up_offset (style_left el) (get_prop position ''left'')
                 (case initialHelper p of Some h \<Rightarrow> getLeft h width | None \<Rightarrow> Num (Finite 0)) ''left'' cp;
          cp = up_offset (style_top el) (get_prop position ''top'')
                 (case initialHelper p of Some h \<Rightarrow> getTop h height | None \<Rightarrow> Num (Finite 0)) ''top'' cp;
          cp = up_bound ''maxHeight'' position cp;
          cp = up_bound ''maxWidth'' position cp;
          cp = up_bound ''minHeight'' position cp;
          cp = up_bound ''minWidth'' position cp;
          cp = up_transform ''rotateX'' position cp;
          cp = up_transform ''rotateY'' position cp;
          cp = up_transform ''rotateZ'' position cp;
          cp = up_transform ''translateX'' position cp;
          cp = up_transform ''translateY'' position cp;
          cp = up_transform ''translateZ'' position cp;
          cp = up_scale position cp;
          cp = up_transformOrigin position cp;
          cp = up_zIndex position cp
      in (cp, width, height))"

definition validation_context ::
  "parent \<Rightarrow> element \<Rightarrow> position \<Rightarrow> jsobj \<Rightarrow> jsval \<Rightarrow> jsval \<Rightarrow> validation_data" where
  "validation_context par el p cp width height =
     (let c = sc_computed (styleCache p) in
      \<lparr>vd_position = cp, vd_parent = par, vd_el = el, vd_computed = c,
       vd_transforms = transforms p, vd_height = height, vd_width = width,
       vd_marginLeft = get_prop c ''marginLeft'', vd_marginTop = get_prop c ''marginTop'',
       vd_maxHeight = nullish (get_prop c ''maxHeight'') (get_prop cp ''maxHeight''),
       vd_maxWidth = nullish (get_prop c ''maxWidth'') (get_prop cp ''maxWidth''),
       vd_minHeight = js_or (get_prop c ''minHeight'') (nullish (get_prop cp ''minHeight'') (Num (Finite 0))),
       vd_minWidth = js_or (get_prop c ''minWidth'') (nullish (get_prop cp ''minWidth'') (Num (Finite 0)))\<rparr>)"

definition updatePosition :: "jsobj \<Rightarrow> parent \<Rightarrow> element \<Rightarrow> position \<Rightarrow> jsobj option" where
  "updatePosition position par el p =
     (case proposed position el p of (cp, width, height) \<Rightarrow>
        if validators p \<noteq> []
        then run_validators (validators p) (validation_context par el p cp width height) cp
        else Some cp)"

subsection \<open>\<open>set\<close>\<close>

definition assign :: "string \<Rightarrow> jsval \<Rightarrow> (changeset \<Rightarrow> changeset) \<Rightarrow> position \<Rightarrow> position" where
  "assign k v flag p =
     (if strict_ne (get_prop (data p) k) v
      then p\<lparr>data := set_prop (data p) k v, positionChangeSet := flag (positionChangeSet p)\<rparr>
      else p)"

definition assign_transform :: "string \<Rightarrow> jsval \<Rightarrow> position \<Rightarrow> position" where
  "assign_transform k v p =
     (if strict_ne (get_prop (data p) k) v
      then p\<lparr>data := set_prop (data p) k v, transforms := set_prop (transforms p) k v,
             positionChangeSet := (positionChangeSet p)\<lparr>cs_transform := True\<rparr>\<rparr>
      else p)"

text \<open>left, top and zIndex: \<open>typeof v === 'number'\<close>, then \<open>Math.round\<close>.\<close>

definition set_rounded :: "string \<Rightarrow> (changeset \<Rightarrow> changeset) \<Rightarrow> jsobj \<Rightarrow> position \<Rightarrow> position" where
  "set_rounded k flag position p =
     (let v = get_prop position k in
      if is_number v then assign k (Math_round v) flag p else p)"

text \<open>The four bounds: \<open>Number.isFinite(v) || v === null\<close>.\<close>

definition set_bound :: "string \<Rightarrow> (changeset \<Rightarrow> changeset) \<Rightarrow> jsobj \<Rightarrow> position \<Rightarrow> position" where
  "set_bound k flag position p =
     (let v = get_prop position k in
      if isFinite v \<or> v = Null
      then assign k (if is_number v then Math_round v else Null) flag p else p)"

text \<open>Rotation and translation: \<open>typeof v === 'number' || v === null\<close>, stored as given.\<close>

definition set_transform :: "string \<Rightarrow> jsobj \<Rightarrow> position \<Rightarrow> position" where
  "set_transform k position p =
     (let v = get_prop position k in
      if is_number v \<or> v = Null then assign_transform k v p else p)"

definition set_scale :: "jsobj \<Rightarrow> position \<Rightarrow> position" where
  "set_scale position p =
     (let v = get_prop position ''scale'' in
      if is_number v \<or> v = Null then assign_transform ''scale'' (clamp_scale v) p else p)"

definition set_transformOrigin :: "jsobj \<Rightarrow> position \<Rightarrow> position" where
  "set_transformOrigin position p =
     (let v = get_prop position ''transformOrigin'' in
      if is_string v \<or> v = Null
      then assign ''transformOrigin'' (valid_origin v) (\<lambda>c. c\<lparr>cs_transformOrigin := True\<rparr>) p
      else p)"

text \<open>width and height: a number, \<open>'auto'\<close> or \<open>null\<close>.\<close>

definition set_size :: "string \<Rightarrow> (changeset \<Rightarrow> changeset) \<Rightarrow> jsobj \<Rightarrow> position \<Rightarrow> position" where
  "set_size k flag position p =
     (let v = get_prop position k in
      if is_number v \<or> v = Str ''auto'' \<or> v = Null
      then assign k (if is_number v then Math_round v else v) flag p else p)"

text \<open>The seventeen field blocks of \<open>set\<close>, in the order of the source.\<close>

definition set_fields :: "jsobj \<Rightarrow> position \<Rightarrow> position" where
  "set_fields position p =
     (let p = set_rounded ''left'' (\<lambda>c. c\<lparr>cs_left := True\<rparr>) position p;
          p = set_rounded ''top'' (\<lambda>c. c\<lparr>cs_top := True\<rparr>) position p;
          p = set_bound ''maxHeight'' (\<lambda>c. c\<lparr>cs_maxHeight := True\<rparr>) position p;
          p = set_bound ''maxWidth'' (\<lambda>c. c\<lparr>cs_maxWidth := True\<rparr>) position p;
          p = set_bound ''minHeight'' (\<lambda>c. c\<lparr>cs_minHeight := True\<rparr>) position p;
          p = set_bound ''minWidth'' (\<lambda>c. c\<lparr>cs_minWidth := True\<rparr>) position p;
          p = set_transform ''rotateX'' position p;
          p = set_transform ''rotateY'' position p;
          p = set_transform ''rotateZ'' position p;
          p = set_scale position p;
          p = set_transformOrigin position p;
          p = set_transform ''translateX'' position p;
          p = set_transform ''translateY'' position p;
          p = set_transform ''translateZ'' position p;
          p = set_rounded ''zIndex'' (\<lambda>c. c\<lparr>cs_zIndex := True\<rparr>) position p;
          p = set_size ''width'' (\<lambda>c. c\<lparr>cs_width := True\<rparr>) position p;
          p = set_size ''height'' (\<lambda>c. c\<lparr>cs_height := True\<rparr>) position p
      in p)"

text \<open>\<open>options.positionable\<close> is the boolean \<open>false\<close>.\<close>

fun not_positionable :: "parent \<Rightarrow> bool" where
  "not_positionable (AppParent a) = (positionable a = Some False)"
| "not_positionable par = False"

text \<open>The connected target element, if there is one.\<close>

fun target_el :: "parent \<Rightarrow> element option" where
  "target_el NoParent = None"
| "target_el (ElementParent e) = (if isConnected e then Some e else None)"
| "target_el (AppParent a) =
     (case elementTarget a of
        Some e \<Rightarrow> if isConnected e then Some e else None
      | None \<Rightarrow> None)"

text \<open>The first block of \<open>set\<close> with an element: the computed styles are cached once.\<close>

definition cache_style :: "element \<Rightarrow> position \<Rightarrow> position" where
  "cache_style el p =
     (if \<not> StyleCache_hasData (styleCache p) el
      then p\<lparr>styleCache := StyleCache_update el, positionChangeSet := changeset_set True\<rparr>
      else p)"

text \<open>
  \<open>set(position)\<close> on an instance and the update manager. The argument is an object
  of the caller's; the roundings \<open>set\<close> writes back into it are not part of the result.
\<close>

definition Position_set :: "jsobj \<Rightarrow> position \<times> update_manager \<Rightarrow> position \<times> update_manager" where
  "Position_set position s =
     (case s of (p, um) \<Rightarrow>
        if not_positionable (parent p) then (p, um)
        else
          (case target_el (parent p) of
             Some el \<Rightarrow>
               let p = cache_style el p
               in (case updatePosition position (parent p) el p of
                     None \<Rightarrow> (p, um)
                   | Some position' \<Rightarrow>
                       let p = set_fields position' p;
                           p = (if defaultData p = None then p\<lparr>defaultData := Some (Object_assign [] (data p))\<rparr> else p);
                           (promise, um) = UpdateElementManager_add el (ident p) um
                       in (p\<lparr>updateElementPromise := Some promise\<rparr>, um))
           | None \<Rightarrow> (updateSubscribers (set_fields position p), um)))"


subsection \<open>Snapshots\<close>

datatype error = TypeError string




subsection \<open>\<open>reset\<close>\<close>





subsection \<open>\<open>animateTo\<close>\<close>

text \<open>
  The object \<open>animateTo\<close> hands to the animation manager, with the two properties the
  manager reads besides: \<open>el\<close> (\<open>None\<close> when the property is missing) and \<open>finished\<close>.
  \<open>position\<close> is the identity of the owning instance, whose \<open>currentAnimationKeys\<close> set the
  object shares; \<open>resolved\<close> records that \<open>resolve()\<close> has been called.
\<close>

record animation_data =
  ad_current :: rat
  ad_destination :: jsobj
  ad_duration :: rat
  ad_easing :: "jsnum \<Rightarrow> jsnum"
  ad_el :: "element option"
  ad_finished :: bool
  ad_initial :: jsobj
  ad_interpolate :: "jsval \<Rightarrow> jsval \<Rightarrow> jsnum \<Rightarrow> jsval"
  ad_keys :: "string list"
  ad_newData :: jsobj
  ad_position :: nat
  ad_resolved :: bool
  ad_start :: rat

text \<open>An option that ought to be a function.\<close>

datatype 'f callable = Function 'f | NotFunction jsval

record animate_options =
  duration :: jsval
  easing :: "(jsnum \<Rightarrow> jsnum) callable"
  interpolate :: "(jsval \<Rightarrow> jsval \<Rightarrow> jsnum \<Rightarrow> jsval) callable"

text \<open>
  Modelled from the spec: the defaults, a linear easing and standard linear interpolation
  (\<open>linear\<close> and \<open>lerp\<close> are imported from files that are not among the sources). The
  interpolation is given on finite numbers.
\<close>

definition linear :: "jsnum \<Rightarrow> jsnum" where
  "linear t = t"

fun lerp :: "jsval \<Rightarrow> jsval \<Rightarrow> jsnum \<Rightarrow> jsval" where
  "lerp (Num (Finite a)) (Num (Finite b)) (Finite t) = Num (Finite ((1 - t) * a + t * b))"
| "lerp a b t = Num NaN"

definition default_duration :: "jsval \<Rightarrow> jsval" where
  "default_duration d = (if d = Undefined then Num (Finite 1000) else d)"

fun default_fn :: "'f \<Rightarrow> 'f callable \<Rightarrow> 'f callable" where
  "default_fn f (NotFunction Undefined) = Function f"
| "default_fn f c = c"

text \<open>The first loop: the keys whose data is defined and differs from the target.\<close>

definition collect :: "jsobj \<Rightarrow> jsobj \<Rightarrow> jsobj \<times> jsobj" where
  "collect position d =
     fold (\<lambda>key (initial, destination).
             if strict_ne (get_prop d key) Undefined \<and> strict_ne (get_prop position key) (get_prop d key)
             then (set_prop initial key (get_prop d key), set_prop destination key (get_prop position key))
             else (initial, destination))
          (Object_keys position) ([], [])"

text \<open>\<open>if (ob.k === null) { ob.k = v; }\<close>\<close>

definition null_to :: "string \<Rightarrow> jsval \<Rightarrow> jsobj \<Rightarrow> jsobj" where
  "null_to k v ob = (if get_prop ob k = Null then set_prop ob k v else ob)"

definition neutral :: "jsobj \<Rightarrow> jsobj" where
  "neutral ob =
     (let ob = null_to ''rotateX'' (Num (Finite 0)) ob;
          ob = null_to ''rotateY'' (Num (Finite 0)) ob;
          ob = null_to ''rotateZ'' (Num (Finite 0)) ob;
          ob = null_to ''translateX'' (Num (Finite 0)) ob;
          ob = null_to ''translateY'' (Num (Finite 0)) ob;
          ob = null_to ''translateZ'' (Num (Finite 0)) ob;
          ob = null_to ''scale'' (Num (Finite 1)) ob
      in ob)"

text \<open>\<open>Set.prototype.add\<close>, on a list without repetitions.\<close>

definition Set_add :: "string \<Rightarrow> string list \<Rightarrow> string list" where
  "Set_add k ks = (if k \<in> set ks then ks else ks @ [k])"

text \<open>
  The second loop: a key whose initial value is not finite, or that is animating already,
  is deleted from \<open>initial\<close>; every other key joins \<open>currentAnimationKeys\<close>.
\<close>

definition admit :: "jsobj \<Rightarrow> string list \<Rightarrow> jsobj \<times> string list" where
  "admit initial cak =
     fold (\<lambda>key (initial, cak).
             if \<not> isFinite (get_prop initial key) \<or> key \<in> set cak
             then (delete_prop initial key, cak)
             else (initial, Set_add key cak))
          (Object_keys initial) (initial, cak)"

text \<open>
  The body of \<open>animateTo\<close> on the instance \<open>this\<close>: a thrown error, or the updated
  instance with the animation data to schedule (\<open>None\<close> where the body returns
  \<open>undefined\<close>). The data has no \<open>el\<close> and no \<open>finished\<close> property.
\<close>

definition animateTo_body ::
  "nat \<Rightarrow> jsobj \<Rightarrow> animate_options \<Rightarrow> position \<Rightarrow> error + (position \<times> animation_data option)" where
  "animateTo_body this position opts p =
     (let dur = default_duration (duration opts);
          eas = default_fn linear (easing opts);
          int = default_fn lerp (interpolate opts)
      in
      if not_positionable (parent p) then Inr (p, None)
      else
        (case dur of
           Num (Finite q) \<Rightarrow>
             if \<not> isInteger dur \<or> q < 0
             then Inl (TypeError ''Position - animateTo error: 'duration' is not a positive integer.'')
             else
               (case eas of
                  NotFunction v \<Rightarrow> Inl (TypeError ''Position - animateTo error: 'easing' is not a function.'')
                | Function e \<Rightarrow>
                    (case int of
                       NotFunction v \<Rightarrow>
                         Inl (TypeError ''Position - animateTo error: 'interpolate' is not a function.'')
                     | Function f \<Rightarrow>
                         let (initial, destination) = collect position (data p);
                             initial = neutral initial;
                             destination = neutral destination;
                             (initial, cak) = admit initial (currentAnimationKeys p);
                             newData = Object_assign [] initial;
                             keys = Object_keys newData;
                             p = p\<lparr>currentAnimationKeys := cak\<rparr>
                         in if length keys = 0 then Inr (p, None)
                            else Inr (p, Some
                              \<lparr>ad_current = 0, ad_destination = destination, ad_duration = q,
                               ad_easing = e, ad_el = None, ad_finished = False, ad_initial = initial,
                               ad_interpolate = f, ad_keys = keys, ad_newData = newData,
                               ad_position = this, ad_resolved = False, ad_start = 0\<rparr>)))
         | _ \<Rightarrow> Inl (TypeError ''Position - animateTo error: 'duration' is not a positive integer.'')))"


section \<open>AnimationManager\<close>

text \<open>
  The instances, the update manager and the module state of the animation manager. The
  animation data objects live in \<open>animations\<close>, addressed by number; the two lists hold
  their addresses. \<open>s_PROMISE\<close> tells whether the \<open>animate\<close> loop is running.
\<close>

record world =
  positions :: "nat \<Rightarrow> position"
  updateManager :: update_manager
  animations :: "nat \<Rightarrow> animation_data"
  allocated :: nat
  s_ACTIVE_LIST :: "nat list"
  s_NEW_LIST :: "nat list"
  s_PROMISE :: bool

text \<open>\<open>AnimationManager.add(data)\<close>, returning the address given to the data.\<close>

definition AnimationManager_add :: "animation_data \<Rightarrow> world \<Rightarrow> nat \<times> world" where
  "AnimationManager_add d w =
     (let i = allocated w in
      (i, w\<lparr>animations := (animations w)(i := d), allocated := Suc i,
             s_NEW_LIST := s_NEW_LIST w @ [i], s_PROMISE := True\<rparr>))"

text \<open>
  The promise of an \<open>async\<close> function: rejected with what its body threw, fulfilled, or
  pending on the \<open>resolve\<close> of an animation.
\<close>

datatype promise = Rejected error | Fulfilled | Pending nat

text \<open>
  \<open>animateTo\<close> is declared \<open>async\<close>: the call itself never throws (\<open>Inl\<close>); an error
  thrown by the body is the rejection of the promise returned.
\<close>

definition animateTo :: "nat \<Rightarrow> jsobj \<Rightarrow> animate_options \<Rightarrow> world \<Rightarrow> error + (promise \<times> world)" where
  "animateTo this position opts w =
     (case animateTo_body this position opts (positions w this) of
        Inl e \<Rightarrow> Inr (Rejected e, w)
      | Inr (p, None) \<Rightarrow> Inr (Fulfilled, w\<lparr>positions := (positions w)(this := p)\<rparr>)
      | Inr (p, Some d) \<Rightarrow>
          (case AnimationManager_add d (w\<lparr>positions := (positions w)(this := p)\<rparr>) of
             (i, w) \<Rightarrow> Inr (Pending i, w)))"

text \<open>\<open>data.position.set(position)\<close>\<close>

definition world_set :: "nat \<Rightarrow> jsobj \<Rightarrow> world \<Rightarrow> world" where
  "world_set this position w =
     (case Position_set position (positions w this, updateManager w) of
        (p, um) \<Rightarrow> w\<lparr>positions := (positions w)(this := p), updateManager := um\<rparr>)"

text \<open>\<open>xs.splice(i, 1)\<close>\<close>

definition splice :: "nat \<Rightarrow> 'a list \<Rightarrow> 'a list" where
  "splice i xs = take i xs @ drop (Suc i) xs"

text \<open>\<open>data.currentAnimationKeys.clear()\<close>: the set is the one of the owning instance.\<close>

definition clear_keys :: "nat \<Rightarrow> world \<Rightarrow> world" where
  "clear_keys this w =
     w\<lparr>positions := (positions w)(this := (positions w this)\<lparr>currentAnimationKeys := []\<rparr>)\<rparr>"

text \<open>\<open>data.currentAnimationKeys.delete(key)\<close> for every key, last to first.\<close>

definition release_keys :: "string list \<Rightarrow> nat \<Rightarrow> world \<Rightarrow> world" where
  "release_keys keys this w =
     w\<lparr>positions := (positions w)(this := (positions w this)
        \<lparr>currentAnimationKeys := fold removeAll (rev keys) (currentAnimationKeys (positions w this))\<rparr>)\<rparr>"

definition resolve :: "nat \<Rightarrow> world \<Rightarrow> world" where
  "resolve i w = w\<lparr>animations := (animations w)(i := (animations w i)\<lparr>ad_resolved := True\<rparr>)\<rparr>"

definition finish :: "nat \<Rightarrow> world \<Rightarrow> world" where
  "finish i w = w\<lparr>animations := (animations w)(i := (animations w i)\<lparr>ad_finished := True\<rparr>)\<rparr>"

text \<open>\<open>data.newData[key] = data.destination[key]\<close> for every key, last to first.\<close>

definition final_values :: "animation_data \<Rightarrow> jsobj" where
  "final_values d =
     fold (\<lambda>key nd. set_prop nd key (get_prop (ad_destination d) key)) (rev (ad_keys d)) (ad_newData d)"

definition eased_values :: "jsnum \<Rightarrow> animation_data \<Rightarrow> jsobj" where
  "eased_values easedTime d =
     fold (\<lambda>key nd. set_prop nd key
             (ad_interpolate d (get_prop (ad_initial d) key) (get_prop (ad_destination d) key) easedTime))
          (rev (ad_keys d)) (ad_newData d)"

text \<open>\<open>a / b\<close> for two finite numbers, \<open>b\<close> not negative zero.\<close>

definition js_div :: "rat \<Rightarrow> rat \<Rightarrow> jsnum" where
  "js_div a b =
     (if b \<noteq> 0 then Finite (a / b)
      else if a = 0 then NaN else if 0 < a then PosInfinity else NegInfinity)"

text \<open>
  The body of the loop over \<open>s_ACTIVE_LIST\<close> in \<open>animate\<close>, for the index \<open>cntr\<close> at
  the frame time \<open>current\<close>. Reading \<open>isConnected\<close> of a missing \<open>el\<close> throws.
\<close>

definition animate_entry :: "rat \<Rightarrow> nat \<Rightarrow> world \<Rightarrow> error + world" where
  "animate_entry current cntr w =
     (if length (s_ACTIVE_LIST w) \<le> cntr then Inl (TypeError ''data is undefined'')
      else
        let i = s_ACTIVE_LIST w ! cntr; d = animations w i in
        (case ad_el d of
           None \<Rightarrow> Inl (TypeError ''data.el is undefined'')
         | Some el \<Rightarrow>
             if \<not> isConnected el \<or> ad_finished d then
               Inr (resolve i (clear_keys (ad_position d)
                     (w\<lparr>s_ACTIVE_LIST := splice cntr (s_ACTIVE_LIST w)\<rparr>)))
             else
               let d = d\<lparr>ad_current := current - ad_start d\<rparr> in
               if ad_duration d \<le> ad_current d then
                 let d = d\<lparr>ad_newData := final_values d\<rparr>;
                     w = w\<lparr>animations := (animations w)(i := d)\<rparr>;
                     w = release_keys (ad_keys d) (ad_position d) w;
                     w = world_set (ad_position d) (ad_newData d) w;
                     w = w\<lparr>s_ACTIVE_LIST := splice cntr (s_ACTIVE_LIST w)\<rparr>;
                     w = finish i w
                 in Inr (resolve i w)
               else
                 let easedTime = ad_easing d (js_div (ad_current d) (ad_duration d));
                     d = d\<lparr>ad_newData := eased_values easedTime d\<rparr>;
                     w = w\<lparr>animations := (animations w)(i := d)\<rparr>
                 in Inr (world_set (ad_position d) (ad_newData d) w)))"

text \<open>The loop \<open>for (let cntr = n; --cntr >= 0;)\<close> over the active list.\<close>

fun process_active :: "rat \<Rightarrow> nat \<Rightarrow> world \<Rightarrow> error + world" where
  "process_active current 0 w = Inr w"
| "process_active current (Suc cntr) w =
     (case animate_entry current cntr w of
        Inl e \<Rightarrow> Inl e
      | Inr w' \<Rightarrow> process_active current cntr w')"

text \<open>New data joins the active list, last to first, with its start time.\<close>

definition promote :: "rat \<Rightarrow> world \<Rightarrow> world" where
  "promote current w =
     (if s_NEW_LIST w \<noteq> [] then
        w\<lparr>animations :=
            fold (\<lambda>i h. h(i := (h i)\<lparr>ad_start := current, ad_current := 0\<rparr>))
              (rev (s_NEW_LIST w)) (animations w),
          s_ACTIVE_LIST := s_ACTIVE_LIST w @ rev (s_NEW_LIST w),
          s_NEW_LIST := []\<rparr>
      else w)"

text \<open>
  One turn of the \<open>while\<close> loop of \<open>animate\<close>, up to the \<open>await\<close> of the update manager;
  with both lists empty the loop ends.
\<close>

definition animate_frame :: "rat \<Rightarrow> world \<Rightarrow> error + world" where
  "animate_frame current w =
     (if s_ACTIVE_LIST w = [] \<and> s_NEW_LIST w = [] then Inr (w\<lparr>s_PROMISE := False\<rparr>)
      else
        let w = promote current w
        in process_active current (length (s_ACTIVE_LIST w)) w)"

text \<open>
  After the \<open>await\<close>: when no time has passed every active animation is forced to its
  destination, unless its element is gone or it is finished, and the loop ends.
\<close>

definition quit_entry :: "nat \<Rightarrow> world \<Rightarrow> error + world" where
  "quit_entry i w =
     (let d = animations w i in
      case ad_el d of
        None \<Rightarrow> Inl (TypeError ''data.el is undefined'')
      | Some el \<Rightarrow>
          if \<not> isConnected el \<or> ad_finished d then Inr (resolve i (clear_keys (ad_position d) w))
          else
            let d = d\<lparr>ad_newData := final_values d\<rparr>;
                w = w\<lparr>animations := (animations w)(i := d)\<rparr>;
                w = release_keys (ad_keys d) (ad_position d) w;
                w = world_set (ad_position d) (ad_newData d) w;
                w = finish i w
            in Inr (resolve i w))"

fun quit_all :: "nat list \<Rightarrow> world \<Rightarrow> error + world" where
  "quit_all [] w = Inr w"
| "quit_all (i # is) w =
     (case quit_entry i w of
        Inl e \<Rightarrow> Inl e
      | Inr w' \<Rightarrow> quit_all is w')"

definition animate_resume :: "rat option \<Rightarrow> rat \<Rightarrow> world \<Rightarrow> error + (rat option \<times> world)" where
  "animate_resume newCurrent current w =
     (if (case newCurrent of None \<Rightarrow> True | Some t \<Rightarrow> t \<le> current) then
        (case quit_all (rev (s_ACTIVE_LIST w)) w of
           Inl e \<Rightarrow> Inl e
         | Inr w' \<Rightarrow> Inr (None, w'\<lparr>s_ACTIVE_LIST := [], s_PROMISE := False\<rparr>))
      else Inr (newCurrent, w))"

text \<open>\<open>AnimationManager.cancelAll()\<close>\<close>

definition cancel_entry :: "nat \<Rightarrow> world \<Rightarrow> world" where
  "cancel_entry i w = resolve i (finish i (clear_keys (ad_position (animations w i)) w))"

definition cancelAll :: "world \<Rightarrow> world" where
  "cancelAll w =
     (let w = fold cancel_entry (rev (s_ACTIVE_LIST w)) w;
          w = fold cancel_entry (rev (s_NEW_LIST w)) w
      in w\<lparr>s_ACTIVE_LIST := [], s_NEW_LIST := []\<rparr>)"


section \<open>The blocks of \<open>set\<close> and \<open>#updatePosition\<close>, key by key\<close>

text \<open>
  The seventeen keys fall into kinds that share a block: \<open>stored_as\<close> is the value the
  block of \<open>set\<close> stores for a proposed value (\<open>None\<close> when the guard of the block
  rejects it), \<open>suggested_as\<close> the value \<open>#updatePosition\<close> proposes for the argument
  \<open>arg\<close> when the canonical value is \<open>cur\<close> and there is no initial helper. They are
  shown below to agree with \<open>set_fields\<close> and \<open>proposed\<close>.
\<close>

datatype kind = KLeft | KTop | KWidth | KHeight | KBound | KTransform | KScale | KOrigin | KZIndex | KOther

definition kind_of :: "string \<Rightarrow> kind" where
  "kind_of k =
     (if k = ''left'' then KLeft else if k = ''top'' then KTop
      else if k = ''width'' then KWidth else if k = ''height'' then KHeight
      else if k \<in> {''maxHeight'', ''maxWidth'', ''minHeight'', ''minWidth''} then KBound
      else if k \<in> {''rotateX'', ''rotateY'', ''rotateZ'', ''translateX'', ''translateY'', ''translateZ''}
      then KTransform
      else if k = ''scale'' then KScale
      else if k = ''transformOrigin'' then KOrigin
      else if k = ''zIndex'' then KZIndex
      else KOther)"

fun stored_as :: "kind \<Rightarrow> jsval \<Rightarrow> jsval option" where
  "stored_as KLeft v = (if is_number v then Some (Math_round v) else None)"
| "stored_as KTop v = (if is_number v then Some (Math_round v) else None)"
| "stored_as KZIndex v = (if is_number v then Some (Math_round v) else None)"
| "stored_as KBound v =
     (if isFinite v \<or> v = Null then Some (if is_number v then Math_round v else Null) else None)"
| "stored_as KTransform v = (if is_number v \<or> v = Null then Some v else None)"
| "stored_as KScale v = (if is_number v \<or> v = Null then Some (clamp_scale v) else None)"
| "stored_as KOrigin v = (if is_string v \<or> v = Null then Some (valid_origin v) else None)"
| "stored_as KWidth v =
     (if is_number v \<or> v = Str ''auto'' \<or> v = Null
      then Some (if is_number v then Math_round v else v) else None)"
| "stored_as KHeight v =
     (if is_number v \<or> v = Str ''auto'' \<or> v = Null
      then Some (if is_number v then Math_round v else v) else None)"
| "stored_as KOther v = None"

definition applied :: "jsobj \<Rightarrow> string \<Rightarrow> jsval option" where
  "applied position k = stored_as (kind_of k) (get_prop position k)"

definition size_value :: "string \<Rightarrow> jsval \<Rightarrow> jsval \<Rightarrow> jsval \<Rightarrow> jsval" where
  "size_value style arg offset cur =
     (if style = [] \<or> arg \<noteq> Undefined then
        (if arg = Str ''auto'' \<or> (cur = Str ''auto'' \<and> arg \<noteq> Null) then Str ''auto''
         else if isFinite (if isFinite arg then arg else cur)
              then Math_round (if isFinite arg then arg else cur) else offset)
      else cur)"

definition offset_value :: "string \<Rightarrow> jsval \<Rightarrow> jsval \<Rightarrow> jsval \<Rightarrow> jsval" where
  "offset_value style arg initial cur =
     (if style = [] \<or> isFinite arg then (if isFinite arg then arg else initial) else cur)"

fun suggested_as :: "kind \<Rightarrow> element \<Rightarrow> jsval \<Rightarrow> jsval \<Rightarrow> jsval" where
  "suggested_as KWidth el arg cur = size_value (style_width el) arg (offsetWidth el) cur"
| "suggested_as KHeight el arg cur = size_value (style_height el) arg (offsetHeight el) cur"
| "suggested_as KLeft el arg cur = offset_value (style_left el) arg (Num (Finite 0)) cur"
| "suggested_as KTop el arg cur = offset_value (style_top el) arg (Num (Finite 0)) cur"
| "suggested_as KBound el arg cur =
     (if isFinite arg \<or> arg = Null then (if isFinite arg then Math_round arg else Null) else cur)"
| "suggested_as KTransform el arg cur = (if is_number arg \<or> arg = Null then arg else cur)"
| "suggested_as KScale el arg cur = (if is_number arg \<or> arg = Null then clamp_scale arg else cur)"
| "suggested_as KOrigin el arg cur = (if is_string arg \<or> arg = Null then valid_origin arg else cur)"
| "suggested_as KZIndex el arg cur =
     (if is_number arg \<or> arg = Null then (if is_number arg then Math_round arg else arg) else cur)"
| "suggested_as KOther el arg cur = cur"

section \<open>Example states\<close>

definition um_empty :: update_manager where
  "um_empty = \<lparr>um_callbacks = [], um_requests = 0\<rparr>"

text \<open>A connected element of 200 by 100 pixels with no inline style.\<close>

definition el_example :: element where
  "el_example = \<lparr>el_id = 1, isConnected = True, style_width = [], style_height = [],
     style_left = [], style_top = [], offsetWidth = Num (Finite 200), offsetHeight = Num (Finite 100),
     computed = []\<rparr>"

text \<open>A validator that vetoes every update.\<close>

definition veto :: validator where
  "veto vd = None"

definition options_example :: jsobj where
  "options_example = [(''left'', Num (Finite 0)), (''top'', Num (Finite 0)),
     (''width'', Num (Finite 200)), (''height'', Num (Finite 100))]"

definition animation_idle :: animation_data where
  "animation_idle = \<lparr>ad_current = 0, ad_destination = [], ad_duration = 0, ad_easing = linear,
     ad_el = None, ad_finished = False, ad_initial = [], ad_interpolate = lerp, ad_keys = [],
     ad_newData = [], ad_position = 0, ad_resolved = False, ad_start = 0\<rparr>"

text \<open>Instances without a parent, built from \<open>options_example\<close>, and nothing scheduled.\<close>

definition world_empty :: world where
  "world_empty = \<lparr>positions = (\<lambda>i. Position_new i NoParent options_example None []),
     updateManager = um_empty, animations = (\<lambda>i. animation_idle), allocated = 0,
     s_ACTIVE_LIST = [], s_NEW_LIST = [], s_PROMISE = False\<rparr>"

definition options_default :: animate_options where
  "options_default = \<lparr>duration = Undefined, easing = NotFunction Undefined,
     interpolate = NotFunction Undefined\<rparr>"

text \<open>
  An animation of \<open>left\<close> from 0 to 300 over 100 ms on the instance 0, started at time
  0, with a connected element, in the active list.
\<close>

definition animation_left :: animation_data where
  "animation_left = \<lparr>ad_current = 0, ad_destination = [(''left'', Num (Finite 300))],
     ad_duration = 100, ad_easing = linear, ad_el = Some el_example, ad_finished = False,
     ad_initial = [(''left'', Num (Finite 0))], ad_interpolate = lerp, ad_keys = [''left''],
     ad_newData = [(''left'', Num (Finite 0))], ad_position = 0, ad_resolved = False, ad_start = 0\<rparr>"

definition world_left :: world where
  "world_left = \<lparr>positions = (\<lambda>i. (Position_new i (ElementParent el_example) options_example None [])
        \<lparr>currentAnimationKeys := [''left'']\<rparr>),
     updateManager = um_empty, animations = (\<lambda>i. animation_left), allocated = 1,
     s_ACTIVE_LIST = [0], s_NEW_LIST = [], s_PROMISE = True\<rparr>"

text \<open>What the options of \<open>animateTo\<close> have to be.\<close>

definition valid_options :: "animate_options \<Rightarrow> bool" where
  "valid_options opts =
     ((case default_duration (duration opts) of
         Num (Finite q) \<Rightarrow> of_int \<lfloor>q\<rfloor> = q \<and> 0 \<le> q
       | _ \<Rightarrow> False) \<and>
      (case default_fn linear (easing opts) of Function e \<Rightarrow> True | NotFunction v \<Rightarrow> False) \<and>
      (case default_fn lerp (interpolate opts) of Function f \<Rightarrow> True | NotFunction v \<Rightarrow> False))"








text \<open>An instance without a parent and with one subscriber, after \<open>set({ left: NaN })\<close>.\<close>

definition state_NaN :: "position \<times> update_manager" where
  "state_NaN = Position_set [(''left'', Num NaN)]
     (subscribe (Position_new 0 NoParent options_example None []), um_empty)"

text \<open>
  A validator that moves the proposed \<open>top\<close> down by one pixel, an element with an inline
  \<open>top\<close> style, and an instance with both after \<open>set({ left: 5 })\<close>.
\<close>

definition nudge :: validator where
  "nudge vd =
     (case get_prop (vd_position vd) ''top'' of
        Num (Finite q) \<Rightarrow> Some (set_prop (vd_position vd) ''top'' (Num (Finite (q + 1))))
      | _ \<Rightarrow> Some (vd_position vd))"

definition el_styled :: element where
  "el_styled = el_example\<lparr>style_top := ''10px''\<rparr>"

definition state_nudged :: "position \<times> update_manager" where
  "state_nudged = Position_set [(''left'', Num (Finite 5))]
     (Position_new 0 (ElementParent el_styled) options_example None [nudge], um_empty)"

section \<open>Objects: reading after writing\<close>

lemma get_set_prop: "get_prop (set_prop ob k v) k' = (if k' = k then v else get_prop ob k')"
  by (simp add: get_prop_def set_prop_def update_conv')

lemma get_delete_prop:
  "get_prop (delete_prop ob k) k' = (if k' = k then Undefined else get_prop ob k')"
  by (simp add: get_prop_def delete_prop_def delete_conv')

lemma keys_set_prop: "set (Object_keys (set_prop ob k v)) = insert k (set (Object_keys ob))"
  by (auto simp: Object_keys_def set_prop_def update_keys)

lemma get_prop_fold_assign:
  "get_prop (fold (\<lambda>k t. set_prop t k (f k)) ks t) k' =
     (if k' \<in> set ks then f k' else get_prop t k')"
  by (induction ks arbitrary: t) (auto simp: get_set_prop)

lemma get_Object_assign:
  "get_prop (Object_assign t s) k =
     (if k \<in> set (Object_keys s) then get_prop s k else get_prop t k)"
  by (simp add: Object_assign_def get_prop_fold_assign)

section \<open>A validator's veto\<close>

lemma run_validators_veto:
  "run_validators vs vd cp = Some cp' \<Longrightarrow> v (vd\<lparr>vd_position := cp'\<rparr>) = None \<Longrightarrow>
   run_validators (vs @ v # ws) vd cp = None"
  by (induction vs arbitrary: cp) (auto split: option.splits)

lemma cache_style_frame:
  "data (cache_style el p) = data p"
  "validators (cache_style el p) = validators p"
  "parent (cache_style el p) = parent p"
  "updateElementPromise (cache_style el p) = updateElementPromise p"
  "defaultData (cache_style el p) = defaultData p"
  "delivered (cache_style el p) = delivered p"
  by (simp_all add: cache_style_def)

text \<open>
  C1. On an instance with a connected target element, let the validators before \<open>v\<close>
  pass the proposed position on and let \<open>v\<close> return \<open>null\<close> on what it is fed. Then
  \<open>set\<close> leaves the canonical data as it was, adds nothing to the update manager (no
  callback, no promise), keeps the stored element-update promise and the default data, and
  notifies no subscriber.
\<close>

theorem set_validator_veto:
  assumes el: "target_el (parent p) = Some el"
    and pr: "proposed position el (cache_style el p) = (cp, width, height)"
    and vs: "validators p = vs @ v # ws"
    and fed: "run_validators vs
        (validation_context (parent p) el (cache_style el p) cp width height) cp = Some cp'"
    and null: "v ((validation_context (parent p) el (cache_style el p) cp width height)
        \<lparr>vd_position := cp'\<rparr>) = None"
  shows "data (fst (Position_set position (p, um))) = data p \<and>
     snd (Position_set position (p, um)) = um \<and>
     updateElementPromise (fst (Position_set position (p, um))) = updateElementPromise p \<and>
     defaultData (fst (Position_set position (p, um))) = defaultData p \<and>
     delivered (fst (Position_set position (p, um))) = delivered p"
proof -
  have "run_validators (vs @ v # ws)
      (validation_context (parent p) el (cache_style el p) cp width height) cp = None"
    using fed null by (rule run_validators_veto)
  then have "updatePosition position (parent p) el (cache_style el p) = None"
    using pr vs by (simp add: updatePosition_def cache_style_frame)
  then have "Position_set position (p, um) = (p, um) \<or>
      Position_set position (p, um) = (cache_style el p, um)"
    using el by (simp add: Position_set_def cache_style_frame)
  then show ?thesis
    by (auto simp: cache_style_frame)
qed

theorem set_validator_veto_witness:
  "data (fst (Position_set [(''left'', Num (Finite 10))]
       (Position_new 0 (ElementParent el_example) options_example None [veto], um_empty))) =
     data (Position_new 0 (ElementParent el_example) options_example None [veto]) \<and>
   snd (Position_set [(''left'', Num (Finite 10))]
       (Position_new 0 (ElementParent el_example) options_example None [veto], um_empty)) = um_empty"
proof -
  let ?p = "Position_new 0 (ElementParent el_example) options_example None [veto]"
  let ?pos = "[(''left'', Num (Finite 10))]"
  obtain cp width height where pr: "proposed ?pos el_example (cache_style el_example ?p) = (cp, width, height)"
    by (cases "proposed ?pos el_example (cache_style el_example ?p)") auto
  have el: "target_el (parent ?p) = Some el_example"
    by (simp add: Position_new_def el_example_def)
  have vs: "validators ?p = [] @ veto # []"
    by (simp add: Position_new_def)
  have fed: "run_validators []
      (validation_context (parent ?p) el_example (cache_style el_example ?p) cp width height) cp = Some cp"
    by simp
  have null: "veto ((validation_context (parent ?p) el_example (cache_style el_example ?p) cp width height)
      \<lparr>vd_position := cp\<rparr>) = None"
    by (simp add: veto_def)
  show ?thesis
    using set_validator_veto [OF el pr vs fed null, of um_empty] by simp
qed

section \<open>Numbers that are not finite\<close>

text \<open>
  C2. \<open>set({ left: NaN })\<close> on an instance without a target element: \<open>NaN\<close> passes the
  test \<open>typeof position.left === 'number'\<close>, \<open>Math.round\<close> keeps it and it differs from
  the stored value, so the canonical \<open>left\<close> becomes \<open>NaN\<close>.
\<close>

theorem set_left_NaN_persists:
  "get_prop (data (fst (Position_set [(''left'', Num NaN)]
      (Position_new 0 NoParent options_example None [], um_empty)))) ''left'' = Num NaN"
  by code_simp

text \<open>
  C3. The constructor stores a finite \<open>scale\<close> option as it is, without the clamp to
  \<open>[0, 1000]\<close> that \<open>set\<close> applies: seeded with 5000, the canonical \<open>scale\<close> is 5000.
\<close>

theorem constructor_scale_unclamped:
  "get_prop (data (Position_new 0 NoParent [(''scale'', Num (Finite 5000))] None [])) ''scale'' =
     Num (Finite 5000)"
  by code_simp


section \<open>Frame lemmas for \<open>set\<close>\<close>

lemma assign_frame:
  "dataSaved (assign k v f p) = dataSaved p"
  "currentAnimationKeys (assign k v f p) = currentAnimationKeys p"
  "defaultData (assign k v f p) = defaultData p"
  "parent (assign k v f p) = parent p"
  "validators (assign k v f p) = validators p"
  "initialHelper (assign k v f p) = initialHelper p"
  "styleCache (assign k v f p) = styleCache p"
  "delivered (assign k v f p) = delivered p"
  "subscriptions (assign k v f p) = subscriptions p"
  "ident (assign k v f p) = ident p"
  by (simp_all add: assign_def)

lemma assign_transform_frame:
  "dataSaved (assign_transform k v p) = dataSaved p"
  "currentAnimationKeys (assign_transform k v p) = currentAnimationKeys p"
  "defaultData (assign_transform k v p) = defaultData p"
  "parent (assign_transform k v p) = parent p"
  "validators (assign_transform k v p) = validators p"
  "initialHelper (assign_transform k v p) = initialHelper p"
  "styleCache (assign_transform k v p) = styleCache p"
  "delivered (assign_transform k v p) = delivered p"
  "subscriptions (assign_transform k v p) = subscriptions p"
  "ident (assign_transform k v p) = ident p"
  by (simp_all add: assign_transform_def)

lemma step_frame:
  fixes g :: "position \<Rightarrow> 'a"
  assumes a: "\<And>k v f p. g (assign k v f p) = g p"
    and t: "\<And>k v p. g (assign_transform k v p) = g p"
  shows "g (set_rounded k f position p) = g p"
    and "g (set_bound k f position p) = g p"
    and "g (set_transform k position p) = g p"
    and "g (set_scale position p) = g p"
    and "g (set_transformOrigin position p) = g p"
    and "g (set_size k f position p) = g p"
  by (simp_all add: set_rounded_def set_bound_def set_transform_def set_scale_def
      set_transformOrigin_def set_size_def Let_def a t)

lemma set_fields_frame_gen:
  fixes g :: "position \<Rightarrow> 'a"
  assumes a: "\<And>k v f p. g (assign k v f p) = g p"
    and t: "\<And>k v p. g (assign_transform k v p) = g p"
  shows "g (set_fields position p) = g p"
  by (simp add: set_fields_def Let_def step_frame [of g, OF a t])

lemmas set_fields_frame =
  set_fields_frame_gen [of dataSaved, OF assign_frame(1) assign_transform_frame(1)]
  set_fields_frame_gen [of currentAnimationKeys, OF assign_frame(2) assign_transform_frame(2)]
  set_fields_frame_gen [of defaultData, OF assign_frame(3) assign_transform_frame(3)]
  set_fields_frame_gen [of parent, OF assign_frame(4) assign_transform_frame(4)]
  set_fields_frame_gen [of validators, OF assign_frame(5) assign_transform_frame(5)]
  set_fields_frame_gen [of initialHelper, OF assign_frame(6) assign_transform_frame(6)]
  set_fields_frame_gen [of styleCache, OF assign_frame(7) assign_transform_frame(7)]
  set_fields_frame_gen [of delivered, OF assign_frame(8) assign_transform_frame(8)]
  set_fields_frame_gen [of subscriptions, OF assign_frame(9) assign_transform_frame(9)]
  set_fields_frame_gen [of ident, OF assign_frame(10) assign_transform_frame(10)]

lemma updateSubscribers_frame:
  "dataSaved (updateSubscribers p) = dataSaved p"
  "currentAnimationKeys (updateSubscribers p) = currentAnimationKeys p"
  "data (updateSubscribers p) = data p"
  "parent (updateSubscribers p) = parent p"
  "defaultData (updateSubscribers p) = defaultData p"
  "validators (updateSubscribers p) = validators p"
  "styleCache (updateSubscribers p) = styleCache p"
  "initialHelper (updateSubscribers p) = initialHelper p"
  "subscriptions (updateSubscribers p) = subscriptions p"
  by (simp_all add: updateSubscribers_def Let_def)



section \<open>Snapshots are copies\<close>




section \<open>Cancelling\<close>

lemma cancel_entry_simps:
  "data (positions (cancel_entry i w) t) = data (positions w t)"
  "ad_position (animations (cancel_entry i w) j) = ad_position (animations w j)"
  "ad_finished (animations (cancel_entry i w) j) = (j = i \<or> ad_finished (animations w j))"
  "ad_resolved (animations (cancel_entry i w) j) = (j = i \<or> ad_resolved (animations w j))"
  "currentAnimationKeys (positions (cancel_entry i w) t) =
     (if t = ad_position (animations w i) then [] else currentAnimationKeys (positions w t))"
  "s_NEW_LIST (cancel_entry i w) = s_NEW_LIST w"
  "s_ACTIVE_LIST (cancel_entry i w) = s_ACTIVE_LIST w"
  by (simp_all add: cancel_entry_def resolve_def finish_def clear_keys_def)

lemma fold_cancel_entry:
  "data (positions (fold cancel_entry is w) t) = data (positions w t)"
  "ad_position (animations (fold cancel_entry is w) j) = ad_position (animations w j)"
  "ad_finished (animations (fold cancel_entry is w) j) = (j \<in> set is \<or> ad_finished (animations w j))"
  "ad_resolved (animations (fold cancel_entry is w) j) = (j \<in> set is \<or> ad_resolved (animations w j))"
  "currentAnimationKeys (positions (fold cancel_entry is w) t) =
     (if t \<in> (\<lambda>i. ad_position (animations w i)) ` set is then []
      else currentAnimationKeys (positions w t))"
  "s_NEW_LIST (fold cancel_entry is w) = s_NEW_LIST w"
  "s_ACTIVE_LIST (fold cancel_entry is w) = s_ACTIVE_LIST w"
  by (induction "is" arbitrary: w) (auto simp: cancel_entry_simps)

text \<open>
  C6, as the code has it. \<open>cancelAll()\<close> leaves the canonical data of every instance as
  it is: no destination value is written. Every pending and active animation is marked
  finished and resolved, the animating-key set of its instance is cleared, and both lists
  end empty.
\<close>

theorem cancelAll_effect:
  "(\<forall>t. data (positions (cancelAll w) t) = data (positions w t)) \<and>
   (\<forall>i \<in> set (s_ACTIVE_LIST w @ s_NEW_LIST w).
      ad_finished (animations (cancelAll w) i) \<and> ad_resolved (animations (cancelAll w) i) \<and>
      currentAnimationKeys (positions (cancelAll w) (ad_position (animations w i))) = []) \<and>
   s_ACTIVE_LIST (cancelAll w) = [] \<and> s_NEW_LIST (cancelAll w) = []"
  by (auto simp: cancelAll_def Let_def fold_cancel_entry)

theorem cancelAll_effect_witness:
  "data (positions (cancelAll world_left) 0) = data (positions world_left 0) \<and>
   ad_finished (animations (cancelAll world_left) 0) \<and>
   ad_resolved (animations (cancelAll world_left) 0) \<and>
   currentAnimationKeys (positions (cancelAll world_left) 0) = [] \<and>
   s_ACTIVE_LIST (cancelAll world_left) = [] \<and> s_NEW_LIST (cancelAll world_left) = []"
proof -
  have a: "0 \<in> set (s_ACTIVE_LIST world_left @ s_NEW_LIST world_left)"
    by (simp add: world_left_def)
  have b: "ad_position (animations world_left 0) = 0"
    by (simp add: world_left_def animation_left_def)
  show ?thesis
    using cancelAll_effect [of world_left] a b by (metis (no_types, lifting))
qed

text \<open>
  The claim C6 fails on \<open>world_left\<close>: the active animation of instance 0 has the
  destination \<open>left = 300\<close>, and after \<open>cancelAll()\<close> the canonical \<open>left\<close> is still 0.
\<close>

theorem cancelAll_keeps_position:
  "s_ACTIVE_LIST world_left = [0] \<and> ad_position (animations world_left 0) = 0 \<and>
   get_prop (ad_destination (animations world_left 0)) ''left'' = Num (Finite 300) \<and>
   get_prop (data (positions (cancelAll world_left) 0)) ''left'' = Num (Finite 0)"
  by code_simp

section \<open>Errors of \<open>animateTo\<close>\<close>

lemma animateTo_body_invalid:
  "\<not> not_positionable (parent p) \<Longrightarrow> \<not> valid_options opts \<Longrightarrow>
   \<exists>m. animateTo_body this position opts p = Inl (TypeError m)"
  by (auto simp: animateTo_body_def valid_options_def Let_def
      split: jsval.splits jsnum.splits callable.splits)

lemma animateTo_body_valid:
  "valid_options opts \<Longrightarrow> animateTo_body this position opts p = Inr (p', r) \<Longrightarrow>
   (case r of None \<Rightarrow> True | Some d \<Rightarrow> \<not> ad_resolved d \<and> \<not> ad_finished d)"
  by (auto simp: animateTo_body_def valid_options_def Let_def
      split: jsval.splits jsnum.splits callable.splits if_splits prod.splits option.splits)

lemma animateTo_body_valid_Inr:
  "valid_options opts \<Longrightarrow> \<exists>p' r. animateTo_body this position opts p = Inr (p', r)"
  by (auto simp: animateTo_body_def valid_options_def Let_def
      split: jsval.splits jsnum.splits callable.splits if_splits prod.splits option.splits)

text \<open>
  C7, as the code has it. A call of \<open>animateTo\<close> never throws: on a positionable
  parent, a duration that is not a non-negative integer, an easing or an interpolation that
  is not a function makes the promise returned a rejected one, carrying the
  \<open>TypeError\<close>, with nothing changed. With valid options the promise is never a rejected
  one: it is fulfilled at once, or pending on the \<open>resolve\<close> of the animation just
  scheduled.
\<close>

theorem animateTo_errors_reject:
  "(\<forall>e. animateTo this position opts w \<noteq> Inl e) \<and>
   (\<not> not_positionable (parent (positions w this)) \<and> \<not> valid_options opts \<longrightarrow>
      (\<exists>m. animateTo this position opts w = Inr (Rejected (TypeError m), w))) \<and>
   (valid_options opts \<longrightarrow>
      (\<exists>w'. animateTo this position opts w = Inr (Fulfilled, w')) \<or>
      (\<exists>w'. animateTo this position opts w = Inr (Pending (allocated w), w') \<and>
         \<not> ad_resolved (animations w' (allocated w))))"
proof (intro conjI impI allI)
  fix e show "animateTo this position opts w \<noteq> Inl e"
    by (auto simp: animateTo_def split: sum.splits option.splits prod.splits)
next
  assume "\<not> not_positionable (parent (positions w this)) \<and> \<not> valid_options opts"
  then obtain m where "animateTo_body this position opts (positions w this) = Inl (TypeError m)"
    using animateTo_body_invalid by blast
  then show "\<exists>m. animateTo this position opts w = Inr (Rejected (TypeError m), w)"
    by (simp add: animateTo_def)
next
  assume v: "valid_options opts"
  then obtain p' r where b: "animateTo_body this position opts (positions w this) = Inr (p', r)"
    using animateTo_body_valid_Inr by blast
  show "(\<exists>w'. animateTo this position opts w = Inr (Fulfilled, w')) \<or>
      (\<exists>w'. animateTo this position opts w = Inr (Pending (allocated w), w') \<and>
         \<not> ad_resolved (animations w' (allocated w)))"
  proof (cases r)
    case None
    then show ?thesis using b by (simp add: animateTo_def)
  next
    case (Some d)
    then have "\<not> ad_resolved d" using animateTo_body_valid [OF v b] by simp
    then show ?thesis using b Some
      by (simp add: animateTo_def AnimationManager_add_def Let_def)
  qed
qed

theorem animateTo_errors_reject_witness:
  "(\<exists>m. animateTo 0 [(''left'', Num (Finite 300))]
        (options_default\<lparr>duration := Num (Finite (- 1))\<rparr>) world_empty =
      Inr (Rejected (TypeError m), world_empty)) \<and>
   ((\<exists>w'. animateTo 0 [(''left'', Num (Finite 300))] options_default world_empty = Inr (Fulfilled, w')) \<or>
    (\<exists>w'. animateTo 0 [(''left'', Num (Finite 300))] options_default world_empty =
        Inr (Pending (allocated world_empty), w') \<and>
       \<not> ad_resolved (animations w' (allocated world_empty))))"
proof -
  have a: "\<not> not_positionable (parent (positions world_empty 0)) \<and>
      \<not> valid_options (options_default\<lparr>duration := Num (Finite (- 1))\<rparr>)"
    by (simp add: world_empty_def Position_new_def valid_options_def options_default_def
        default_duration_def)
  have b: "valid_options options_default"
    by (simp add: valid_options_def options_default_def default_duration_def)
  show ?thesis
    using animateTo_errors_reject [of 0 "[(''left'', Num (Finite 300))]"
        "options_default\<lparr>duration := Num (Finite (- 1))\<rparr>" world_empty]
      animateTo_errors_reject [of 0 "[(''left'', Num (Finite 300))]" options_default world_empty]
      a b
    by blast
qed

text \<open>
  The claim C7 fails at the duration \<open>-1\<close>: the call returns, and what it returns is a
  promise rejected with the \<open>TypeError\<close>; nothing is thrown at the call site.
\<close>

theorem animateTo_invalid_duration_rejected:
  "map_sum id fst (animateTo 0 [(''left'', Num (Finite 300))]
      (options_default\<lparr>duration := Num (Finite (- 1))\<rparr>) world_empty) =
     Inr (Rejected (TypeError ''Position - animateTo error: 'duration' is not a positive integer.''))"
  by code_simp

section \<open>\<open>reset\<close>\<close>

lemma get_prop_fold_delete:
  "get_prop (fold (\<lambda>key d. delete_prop d key) ks d) k =
     (if k \<in> set ks then Undefined else get_prop d k)"
  by (induction ks arbitrary: d) (auto simp: get_delete_prop)


lemma get_prop_keys: "k \<notin> set (Object_keys ob) \<Longrightarrow> get_prop ob k = Undefined"
  by (simp add: get_prop_def Object_keys_def map_of_eq_None_iff [THEN iffD2])






section \<open>Scheduling an animation\<close>



lemma distinct_keys_delete_prop:
  "distinct (Object_keys ob) \<Longrightarrow> distinct (Object_keys (delete_prop ob k))"
  by (simp add: Object_keys_def delete_prop_def distinct_delete)







lemma get_prop_in_keys: "get_prop ob k \<noteq> Undefined \<Longrightarrow> k \<in> set (Object_keys ob)"
  by (auto simp: get_prop_def Object_keys_def split: option.splits dest: map_of_SomeD intro: rev_image_eqI)

lemma keys_null_to: "set (Object_keys (null_to k0 v ob)) = set (Object_keys ob)"
  using get_prop_in_keys [of ob k0] by (auto simp: null_to_def keys_set_prop)



lemma keys_neutral: "set (Object_keys (neutral ob)) = set (Object_keys ob)"
  by (simp add: neutral_def Let_def keys_null_to)













section \<open>The last frame of an animation\<close>

lemma data_assign:
  "get_prop (data (assign k v f p)) k' = (if k' = k then v else get_prop (data p) k')"
  by (auto simp: assign_def get_set_prop strict_ne_def)

lemma data_assign_transform:
  "get_prop (data (assign_transform k v p)) k' = (if k' = k then v else get_prop (data p) k')"
  by (auto simp: assign_transform_def get_set_prop strict_ne_def)

lemma data_set_rounded:
  "get_prop (data (set_rounded k f position p)) k' =
     (if k' = k \<and> is_number (get_prop position k) then Math_round (get_prop position k)
      else get_prop (data p) k')"
  by (simp add: set_rounded_def Let_def data_assign)

lemma data_set_bound:
  "get_prop (data (set_bound k f position p)) k' =
     (if k' = k \<and> (isFinite (get_prop position k) \<or> get_prop position k = Null)
      then (if is_number (get_prop position k) then Math_round (get_prop position k) else Null)
      else get_prop (data p) k')"
  by (simp add: set_bound_def Let_def data_assign)

lemma data_set_transform:
  "get_prop (data (set_transform k position p)) k' =
     (if k' = k \<and> (is_number (get_prop position k) \<or> get_prop position k = Null)
      then get_prop position k else get_prop (data p) k')"
  by (simp add: set_transform_def Let_def data_assign_transform)

lemma data_set_scale:
  "get_prop (data (set_scale position p)) k' =
     (if k' = ''scale'' \<and> (is_number (get_prop position ''scale'') \<or> get_prop position ''scale'' = Null)
      then clamp_scale (get_prop position ''scale'') else get_prop (data p) k')"
  by (simp add: set_scale_def Let_def data_assign_transform)

lemma data_set_transformOrigin:
  "get_prop (data (set_transformOrigin position p)) k' =
     (if k' = ''transformOrigin'' \<and>
         (is_string (get_prop position ''transformOrigin'') \<or> get_prop position ''transformOrigin'' = Null)
      then valid_origin (get_prop position ''transformOrigin'') else get_prop (data p) k')"
  by (simp add: set_transformOrigin_def Let_def data_assign)

lemma data_set_size:
  "get_prop (data (set_size k f position p)) k' =
     (if k' = k \<and> (is_number (get_prop position k) \<or> get_prop position k = Str ''auto'' \<or>
         get_prop position k = Null)
      then (if is_number (get_prop position k) then Math_round (get_prop position k)
            else get_prop position k)
      else get_prop (data p) k')"
  by (simp add: set_size_def Let_def data_assign)

lemmas data_steps = data_set_rounded data_set_bound data_set_transform data_set_scale
  data_set_transformOrigin data_set_size







lemma cache_style_more:
  "initialHelper (cache_style el p) = initialHelper p"
  "currentAnimationKeys (cache_style el p) = currentAnimationKeys p"
  by (simp_all add: cache_style_def)



lemma final_values_current [simp]: "final_values (d\<lparr>ad_current := x\<rparr>) = final_values d"
  by (simp add: final_values_def)







section \<open>Calling \<open>set\<close> twice\<close>

lemma floor_half: "\<lfloor>(1::rat) / 2\<rfloor> = 0"
  by (simp add: floor_eq_iff)

lemma num_round_idem: "num_round (num_round n) = num_round n"
  by (cases n) (auto simp: floor_half)

lemma Math_round_idem: "is_number v \<Longrightarrow> Math_round (Math_round v) = Math_round v"
  by (cases v rule: Math_round.cases) (auto simp: num_round_idem)

lemma Math_round_number: "is_number (Math_round v)"
  by (cases v rule: Math_round.cases) auto

lemma Math_round_finite: "isFinite (Math_round v) = isFinite v"
  by (cases v rule: isFinite.cases) auto

lemma Math_round_NaN: "is_number v \<Longrightarrow> v \<noteq> Num NaN \<Longrightarrow> Math_round v \<noteq> Num NaN"
  by (cases v rule: isFinite.cases) auto

lemma clamp_range:
  "Math_max (Finite 0) (Math_min n (Finite 1000)) = NaN \<or>
   (\<exists>q. Math_max (Finite 0) (Math_min n (Finite 1000)) = Finite q \<and> 0 \<le> q \<and> q \<le> 1000)"
  by (cases n) (auto simp: Math_max_def Math_min_def)

lemma clamp_scale_idem: "clamp_scale (clamp_scale v) = clamp_scale v"
proof (cases v)
  case (Num n)
  then show ?thesis
    using clamp_range [of n] by (auto simp: Math_max_def Math_min_def)
qed auto

lemma clamp_scale_kind: "is_number (clamp_scale v) \<or> clamp_scale v = Null"
  by (cases v) auto

lemma clamp_scale_NaN: "v \<noteq> Num NaN \<Longrightarrow> clamp_scale v \<noteq> Num NaN"
  by (cases v rule: clamp_scale.cases) (auto simp: Math_max_def Math_min_def)

lemma valid_origin_idem: "valid_origin (valid_origin v) = valid_origin v"
  by (cases v) auto

lemma valid_origin_kind: "is_string (valid_origin v) \<or> valid_origin v = Null"
  by (cases v) auto

lemma valid_origin_NaN: "valid_origin v \<noteq> Num NaN"
  by (cases v rule: valid_origin.cases) auto

lemma stored_idem: "stored_as kd v = Some x \<Longrightarrow> stored_as kd x = Some x"
  using clamp_scale_kind [of v] valid_origin_kind [of v]
  by (cases kd)
     (auto simp: Math_round_idem Math_round_number Math_round_finite clamp_scale_idem
        valid_origin_idem split: if_splits)

lemma stored_NaN: "stored_as kd v = Some x \<Longrightarrow> v \<noteq> Num NaN \<Longrightarrow> x \<noteq> Num NaN"
  by (cases kd) (auto simp: Math_round_NaN clamp_scale_NaN valid_origin_NaN split: if_splits)

lemma settle_pass:
  assumes "\<And>c. G c = (if b then a else c)" and "a \<noteq> Num NaN" and "cur \<noteq> Num NaN"
  shows "G (case stored_as kd (G cur) of Some v \<Rightarrow> v | None \<Rightarrow> cur) \<noteq> Num NaN \<and>
    (\<forall>v. stored_as kd (G (case stored_as kd (G cur) of Some v \<Rightarrow> v | None \<Rightarrow> cur)) = Some v \<longrightarrow>
       (case stored_as kd (G cur) of Some v \<Rightarrow> v | None \<Rightarrow> cur) = v)"
proof (cases b)
  case True
  then show ?thesis using assms by (auto split: option.splits)
next
  case False
  then have G: "\<And>c. G c = c" using assms(1) by simp
  show ?thesis
    using assms(3) stored_idem [of kd cur] stored_NaN [of kd cur]
    by (auto simp: G split: option.splits)
qed


lemma isFinite_cases: "isFinite v \<Longrightarrow> \<exists>q. v = Num (Finite q)"
  by (cases v rule: isFinite.cases) auto

lemma settle_size:
  assumes "arg \<noteq> Num NaN" and "cur \<noteq> Num NaN" and "offset \<noteq> Num NaN"
    and "kd = KWidth \<or> kd = KHeight"
  shows "size_value style arg offset
        (case stored_as kd (size_value style arg offset cur) of Some v \<Rightarrow> v | None \<Rightarrow> cur) \<noteq> Num NaN \<and>
    (\<forall>v. stored_as kd (size_value style arg offset
        (case stored_as kd (size_value style arg offset cur) of Some v \<Rightarrow> v | None \<Rightarrow> cur)) = Some v \<longrightarrow>
       (case stored_as kd (size_value style arg offset cur) of Some v \<Rightarrow> v | None \<Rightarrow> cur) = v)"
proof -
  consider (pass) "\<not> (style = [] \<or> arg \<noteq> Undefined)"
    | (auto) "style = [] \<or> arg \<noteq> Undefined" "arg = Str ''auto''"
    | (given) "style = [] \<or> arg \<noteq> Undefined" "arg \<noteq> Str ''auto''" "isFinite arg"
    | (measured) "style = [] \<or> arg \<noteq> Undefined" "arg \<noteq> Str ''auto''" "\<not> isFinite arg"
    by blast
  then show ?thesis
  proof cases
    case pass
    then have "\<And>c. size_value style arg offset c = (if False then Null else c)"
      by (simp add: size_value_def)
    then show ?thesis
      using settle_pass [of "size_value style arg offset" False Null cur kd] assms(2) by simp
  next
    case auto
    then have "\<And>c. size_value style arg offset c = (if True then Str ''auto'' else c)"
      by (simp add: size_value_def)
    then show ?thesis
      using settle_pass [of "size_value style arg offset" True "Str ''auto''" cur kd] assms(2) by simp
  next
    case given
    then obtain q where q: "arg = Num (Finite q)" using isFinite_cases by blast
    have G: "\<And>c. size_value style arg offset c =
        (if c = Str ''auto'' then Str ''auto'' else Num (Finite (of_int \<lfloor>q + 1 / 2\<rfloor>)))"
      using given q by (simp add: size_value_def)
    show ?thesis
      using assms(4) by (auto simp: G floor_half)
  next
    case measured
    have G: "\<And>c. size_value style arg offset c =
        (if c = Str ''auto'' \<and> arg \<noteq> Null then Str ''auto''
         else if isFinite c then Math_round c else offset)"
      using measured by (simp add: size_value_def)
    show ?thesis
    proof (cases "cur = Str ''auto'' \<and> arg \<noteq> Null")
      case True
      then show ?thesis using assms(4) by (auto simp: G)
    next
      case False
      note nauto = this
      show ?thesis
      proof (cases "isFinite cur")
        case True
        then obtain c where c: "cur = Num (Finite c)" using isFinite_cases by blast
        show ?thesis using assms(4) nauto by (auto simp: G c floor_half)
      next
        case False
        then have 1: "size_value style arg offset cur = offset"
          using nauto by (auto simp: G)
        show ?thesis
        proof (cases "stored_as kd offset")
          case None
          then show ?thesis using 1 assms(3) by simp
        next
          case (Some x)
          then have x: "x = (if is_number offset then Math_round offset else offset)"
            and kindx: "is_number offset \<or> offset = Str ''auto'' \<or> offset = Null"
            using assms(4) by (auto split: if_splits)
          have d1: "(case stored_as kd (size_value style arg offset cur) of Some v \<Rightarrow> v | None \<Rightarrow> cur) = x"
            using 1 Some by simp
          have "(if x = Str ''auto'' \<and> arg \<noteq> Null then Str ''auto''
                 else if isFinite x then Math_round x else offset) = x"
            unfolding x using kindx
            by (cases offset rule: isFinite.cases) (auto simp: floor_half)
          then have Gx: "size_value style arg offset x = x"
            by (simp only: G)
          show ?thesis
            using stored_idem [OF Some] stored_NaN [OF Some assms(3)]
            by (simp add: d1 Gx)
        qed
      qed
    qed
  qed
qed

lemma data_set_fields:
  "get_prop (data (set_fields position p)) k =
     (case applied position k of Some v \<Rightarrow> v | None \<Rightarrow> get_prop (data p) k)"
  by (simp add: set_fields_def Let_def data_steps applied_def kind_of_def)

lemma assign_idle: "get_prop (data p) k = v \<Longrightarrow> v \<noteq> Num NaN \<Longrightarrow> assign k v f p = p"
  by (simp add: assign_def strict_ne_def)

lemma assign_transform_idle:
  "get_prop (data p) k = v \<Longrightarrow> v \<noteq> Num NaN \<Longrightarrow> assign_transform k v p = p"
  by (simp add: assign_transform_def strict_ne_def)

lemma set_rounded_idle:
  "(is_number (get_prop position k) \<longrightarrow> get_prop (data p) k = Math_round (get_prop position k)) \<Longrightarrow>
   get_prop position k \<noteq> Num NaN \<Longrightarrow> set_rounded k f position p = p"
  by (simp add: set_rounded_def Let_def assign_idle Math_round_NaN)

lemma set_bound_idle:
  "(isFinite (get_prop position k) \<or> get_prop position k = Null \<longrightarrow>
      get_prop (data p) k = (if is_number (get_prop position k) then Math_round (get_prop position k) else Null)) \<Longrightarrow>
   get_prop position k \<noteq> Num NaN \<Longrightarrow> set_bound k f position p = p"
  by (cases "is_number (get_prop position k)")
     (auto simp: set_bound_def Let_def assign_idle Math_round_NaN)

lemma set_transform_idle:
  "(is_number (get_prop position k) \<or> get_prop position k = Null \<longrightarrow>
      get_prop (data p) k = get_prop position k) \<Longrightarrow>
   get_prop position k \<noteq> Num NaN \<Longrightarrow> set_transform k position p = p"
  by (simp add: set_transform_def Let_def assign_transform_idle)

lemma set_scale_idle:
  "(is_number (get_prop position ''scale'') \<or> get_prop position ''scale'' = Null \<longrightarrow>
      get_prop (data p) ''scale'' = clamp_scale (get_prop position ''scale'')) \<Longrightarrow>
   get_prop position ''scale'' \<noteq> Num NaN \<Longrightarrow> set_scale position p = p"
  by (simp add: set_scale_def Let_def assign_transform_idle clamp_scale_NaN)

lemma set_transformOrigin_idle:
  "(is_string (get_prop position ''transformOrigin'') \<or> get_prop position ''transformOrigin'' = Null \<longrightarrow>
      get_prop (data p) ''transformOrigin'' = valid_origin (get_prop position ''transformOrigin'')) \<Longrightarrow>
   set_transformOrigin position p = p"
  by (simp add: set_transformOrigin_def Let_def assign_idle valid_origin_NaN)

lemma set_size_idle:
  "(is_number (get_prop position k) \<or> get_prop position k = Str ''auto'' \<or> get_prop position k = Null \<longrightarrow>
      get_prop (data p) k =
        (if is_number (get_prop position k) then Math_round (get_prop position k) else get_prop position k)) \<Longrightarrow>
   get_prop position k \<noteq> Num NaN \<Longrightarrow> set_size k f position p = p"
  by (cases "is_number (get_prop position k)")
     (auto simp: set_size_def Let_def assign_idle Math_round_NaN)

lemmas step_idle = set_rounded_idle set_bound_idle set_transform_idle set_scale_idle
  set_transformOrigin_idle set_size_idle



lemma set_fields_idle:
  assumes "\<And>k. kind_of k \<noteq> KOther \<Longrightarrow> get_prop position k \<noteq> Num NaN"
    and "\<And>k v. applied position k = Some v \<Longrightarrow> get_prop (data p) k = v"
  shows "set_fields position p = p"
proof -
  have s: "case applied position k of Some v \<Rightarrow> get_prop (data p) k = v | None \<Rightarrow> True" for k
    using assms(2) [of k] by (cases "applied position k") auto
  have n: "kind_of k \<noteq> KOther \<longrightarrow> get_prop position k \<noteq> Num NaN" for k
    using assms(1) by blast
  have i_left: "\<And>f. set_rounded ''left'' f position p = p"
    by (rule set_rounded_idle)
       (use s [of "''left''"] n [of "''left''"] in \<open>auto simp: applied_def kind_of_def split: if_splits\<close>)
  have i_top: "\<And>f. set_rounded ''top'' f position p = p"
    by (rule set_rounded_idle)
       (use s [of "''top''"] n [of "''top''"] in \<open>auto simp: applied_def kind_of_def split: if_splits\<close>)
  have i_maxHeight: "\<And>f. set_bound ''maxHeight'' f position p = p"
    by (rule set_bound_idle)
       (use s [of "''maxHeight''"] n [of "''maxHeight''"] in \<open>auto simp: applied_def kind_of_def split: if_splits\<close>)
  have i_maxWidth: "\<And>f. set_bound ''maxWidth'' f position p = p"
    by (rule set_bound_idle)
       (use s [of "''maxWidth''"] n [of "''maxWidth''"] in \<open>auto simp: applied_def kind_of_def split: if_splits\<close>)
  have i_minHeight: "\<And>f. set_bound ''minHeight'' f position p = p"
    by (rule set_bound_idle)
       (use s [of "''minHeight''"] n [of "''minHeight''"] in \<open>auto simp: applied_def kind_of_def split: if_splits\<close>)
  have i_minWidth: "\<And>f. set_bound ''minWidth'' f position p = p"
    by (rule set_bound_idle)
       (use s [of "''minWidth''"] n [of "''minWidth''"] in \<open>auto simp: applied_def kind_of_def split: if_splits\<close>)
  have i_rotateX: "set_transform ''rotateX'' position p = p"
    by (rule set_transform_idle)
       (use s [of "''rotateX''"] n [of "''rotateX''"] in \<open>auto simp: applied_def kind_of_def split: if_splits\<close>)
  have i_rotateY: "set_transform ''rotateY'' position p = p"
    by (rule set_transform_idle)
       (use s [of "''rotateY''"] n [of "''rotateY''"] in \<open>auto simp: applied_def kind_of_def split: if_splits\<close>)
  have i_rotateZ: "set_transform ''rotateZ'' position p = p"
    by (rule set_transform_idle)
       (use s [of "''rotateZ''"] n [of "''rotateZ''"] in \<open>auto simp: applied_def kind_of_def split: if_splits\<close>)
  have i_scale: "set_scale position p = p"
    by (rule set_scale_idle)
       (use s [of "''scale''"] n [of "''scale''"] in \<open>auto simp: applied_def kind_of_def split: if_splits\<close>)
  have i_transformOrigin: "set_transformOrigin position p = p"
    by (rule set_transformOrigin_idle)
       (use s [of "''transformOrigin''"] n [of "''transformOrigin''"] in \<open>auto simp: applied_def kind_of_def split: if_splits\<close>)
  have i_translateX: "set_transform ''translateX'' position p = p"
    by (rule set_transform_idle)
       (use s [of "''translateX''"] n [of "''translateX''"] in \<open>auto simp: applied_def kind_of_def split: if_splits\<close>)
  have i_translateY: "set_transform ''translateY'' position p = p"
    by (rule set_transform_idle)
       (use s [of "''translateY''"] n [of "''translateY''"] in \<open>auto simp: applied_def kind_of_def split: if_splits\<close>)
  have i_translateZ: "set_transform ''translateZ'' position p = p"
    by (rule set_transform_idle)
       (use s [of "''translateZ''"] n [of "''translateZ''"] in \<open>auto simp: applied_def kind_of_def split: if_splits\<close>)
  have i_zIndex: "\<And>f. set_rounded ''zIndex'' f position p = p"
    by (rule set_rounded_idle)
       (use s [of "''zIndex''"] n [of "''zIndex''"] in \<open>auto simp: applied_def kind_of_def split: if_splits\<close>)
  have i_width: "\<And>f. set_size ''width'' f position p = p"
    by (rule set_size_idle)
       (use s [of "''width''"] n [of "''width''"] in \<open>auto simp: applied_def kind_of_def split: if_splits\<close>)
  have i_height: "\<And>f. set_size ''height'' f position p = p"
    by (rule set_size_idle)
       (use s [of "''height''"] n [of "''height''"] in \<open>auto simp: applied_def kind_of_def split: if_splits\<close>)
  show ?thesis
    by (simp add: set_fields_def Let_def i_left i_top i_maxHeight i_maxWidth i_minHeight i_minWidth i_rotateX i_rotateY i_rotateZ i_scale i_transformOrigin i_translateX i_translateY i_translateZ i_zIndex i_width i_height)
qed

lemma set_fields_twice:
  assumes "\<And>k. get_prop position k \<noteq> Num NaN"
  shows "set_fields position (set_fields position p) = set_fields position p"
  by (rule set_fields_idle) (simp_all add: assms data_set_fields)

lemma updateSubscribers_twice: "updateSubscribers (updateSubscribers p) = updateSubscribers p"
  by (simp add: updateSubscribers_def Let_def hasChange_def changeset_set_def)

lemma set_twice_no_element:
  assumes "\<And>k. get_prop position k \<noteq> Num NaN" and "target_el (parent p) = None"
  shows "Position_set position (Position_set position (p, um)) = Position_set position (p, um)"
proof (cases "not_positionable (parent p)")
  case True
  then show ?thesis by (simp add: Position_set_def)
next
  case False
  let ?q = "updateSubscribers (set_fields position p)"
  have 1: "Position_set position (p, um) = (?q, um)"
    using False assms(2) by (simp add: Position_set_def)
  have "set_fields position ?q = ?q"
    by (rule set_fields_idle) (simp_all add: assms(1) updateSubscribers_frame data_set_fields)
  then have 2: "Position_set position (?q, um) = (?q, um)"
    using False assms(2)
    by (simp add: Position_set_def updateSubscribers_frame set_fields_frame updateSubscribers_twice)
  show ?thesis using 1 2 by simp
qed

lemma settle:
  assumes "arg \<noteq> Num NaN" and "cur \<noteq> Num NaN"
    and "offsetWidth el \<noteq> Num NaN" and "offsetHeight el \<noteq> Num NaN"
  shows "suggested_as kd el arg
        (case stored_as kd (suggested_as kd el arg cur) of Some v \<Rightarrow> v | None \<Rightarrow> cur) \<noteq> Num NaN \<and>
    (\<forall>v. stored_as kd (suggested_as kd el arg
        (case stored_as kd (suggested_as kd el arg cur) of Some v \<Rightarrow> v | None \<Rightarrow> cur)) = Some v \<longrightarrow>
       (case stored_as kd (suggested_as kd el arg cur) of Some v \<Rightarrow> v | None \<Rightarrow> cur) = v)"
proof (cases kd)
  case KWidth
  then show ?thesis using settle_size [OF assms(1,2,3), of kd] by simp
next
  case KHeight
  then show ?thesis using settle_size [OF assms(1,2,4), of kd] by simp
next
  case KLeft
  have G: "\<And>c. suggested_as KLeft el arg c = (if style_left el = [] \<or> isFinite arg then if isFinite arg then arg else Num (Finite 0) else c)"
    by (simp add: offset_value_def)
  have a: "(if isFinite arg then arg else Num (Finite 0)) \<noteq> Num NaN"
    using assms(1) by auto
  show ?thesis
    unfolding KLeft
    by (rule settle_pass [of "suggested_as KLeft el arg" "style_left el = [] \<or> isFinite arg" "if isFinite arg then arg else Num (Finite 0)", OF G a assms(2)])
next
  case KTop
  have G: "\<And>c. suggested_as KTop el arg c = (if style_top el = [] \<or> isFinite arg then if isFinite arg then arg else Num (Finite 0) else c)"
    by (simp add: offset_value_def)
  have a: "(if isFinite arg then arg else Num (Finite 0)) \<noteq> Num NaN"
    using assms(1) by auto
  show ?thesis
    unfolding KTop
    by (rule settle_pass [of "suggested_as KTop el arg" "style_top el = [] \<or> isFinite arg" "if isFinite arg then arg else Num (Finite 0)", OF G a assms(2)])
next
  case KBound
  have G: "\<And>c. suggested_as KBound el arg c = (if isFinite arg \<or> arg = Null then if isFinite arg then Math_round arg else Null else c)"
    by simp
  have a: "(if isFinite arg then Math_round arg else Null) \<noteq> Num NaN"
    using assms(1) by (auto simp: Math_round_NaN dest: isFinite_cases)
  show ?thesis
    unfolding KBound
    by (rule settle_pass [of "suggested_as KBound el arg" "isFinite arg \<or> arg = Null" "if isFinite arg then Math_round arg else Null", OF G a assms(2)])
next
  case KTransform
  have G: "\<And>c. suggested_as KTransform el arg c = (if is_number arg \<or> arg = Null then arg else c)"
    by simp
  have a: "(arg) \<noteq> Num NaN"
    using assms(1) by auto
  show ?thesis
    unfolding KTransform
    by (rule settle_pass [of "suggested_as KTransform el arg" "is_number arg \<or> arg = Null" "arg", OF G a assms(2)])
next
  case KScale
  have G: "\<And>c. suggested_as KScale el arg c = (if is_number arg \<or> arg = Null then clamp_scale arg else c)"
    by simp
  have a: "(clamp_scale arg) \<noteq> Num NaN"
    using assms(1) by (auto simp: clamp_scale_NaN)
  show ?thesis
    unfolding KScale
    by (rule settle_pass [of "suggested_as KScale el arg" "is_number arg \<or> arg = Null" "clamp_scale arg", OF G a assms(2)])
next
  case KOrigin
  have G: "\<And>c. suggested_as KOrigin el arg c = (if is_string arg \<or> arg = Null then valid_origin arg else c)"
    by simp
  have a: "(valid_origin arg) \<noteq> Num NaN"
    using assms(1) by (auto simp: valid_origin_NaN)
  show ?thesis
    unfolding KOrigin
    by (rule settle_pass [of "suggested_as KOrigin el arg" "is_string arg \<or> arg = Null" "valid_origin arg", OF G a assms(2)])
next
  case KZIndex
  have G: "\<And>c. suggested_as KZIndex el arg c = (if is_number arg \<or> arg = Null then if is_number arg then Math_round arg else arg else c)"
    by simp
  have a: "(if is_number arg then Math_round arg else arg) \<noteq> Num NaN"
    using assms(1) by (auto simp: Math_round_NaN)
  show ?thesis
    unfolding KZIndex
    by (rule settle_pass [of "suggested_as KZIndex el arg" "is_number arg \<or> arg = Null" "if is_number arg then Math_round arg else arg", OF G a assms(2)])
next
  case KOther
  have G: "\<And>c. suggested_as KOther el arg c = (if False then Null else c)"
    by simp
  have a: "(Null) \<noteq> Num NaN"
    using assms(1) by auto
  show ?thesis
    unfolding KOther
    by (rule settle_pass [of "suggested_as KOther el arg" "False" "Null", OF G a assms(2)])
qed

lemma get_prop_filter:
  "get_prop (filter (\<lambda>kv. fst kv \<notin> S) ob) k = (if k \<in> S then Undefined else get_prop ob k)"
  by (induction ob) (auto simp: get_prop_def)

lemma get_up_size_full:
  "get_prop (fst (up_size style arg offset k cp)) k' =
     (if k' = k then size_value style arg offset (get_prop cp k) else get_prop cp k')"
  by (simp add: up_size_def size_value_def Let_def get_set_prop)

lemma get_up_offset_full:
  "get_prop (up_offset style arg initial k cp) k' =
     (if k' = k then offset_value style arg initial (get_prop cp k) else get_prop cp k')"
  by (simp add: up_offset_def offset_value_def get_set_prop)

lemma get_up_full:
  "get_prop (up_bound k position cp) k' =
     (if k' = k then suggested_as KBound el (get_prop position k) (get_prop cp k) else get_prop cp k')"
  "get_prop (up_transform k position cp) k' =
     (if k' = k then suggested_as KTransform el (get_prop position k) (get_prop cp k) else get_prop cp k')"
  "get_prop (up_scale position cp) k' =
     (if k' = ''scale'' then suggested_as KScale el (get_prop position ''scale'') (get_prop cp ''scale'')
      else get_prop cp k')"
  "get_prop (up_transformOrigin position cp) k' =
     (if k' = ''transformOrigin''
      then suggested_as KOrigin el (get_prop position ''transformOrigin'') (get_prop cp ''transformOrigin'')
      else get_prop cp k')"
  "get_prop (up_zIndex position cp) k' =
     (if k' = ''zIndex'' then suggested_as KZIndex el (get_prop position ''zIndex'') (get_prop cp ''zIndex'')
      else get_prop cp k')"
  by (simp_all add: up_bound_def up_transform_def up_scale_def up_transformOrigin_def up_zIndex_def
      Let_def get_set_prop)

lemma get_current:
  "k \<in> set positionKeys \<Longrightarrow>
   get_prop (Object_assign (filter (\<lambda>kv. fst kv \<notin> set positionKeys) position) d) k = get_prop d k"
  by (simp add: get_Object_assign get_prop_filter get_prop_keys)

lemma kind_of_positionKeys: "kind_of k \<noteq> KOther \<Longrightarrow> k \<in> set positionKeys"
  by (auto simp: kind_of_def positionKeys_def split: if_splits)

lemma get_current_keys:
  "get_prop (Object_assign (filter (\<lambda>kv. fst kv \<notin> set positionKeys) position) d) ''left'' =
     get_prop d ''left''"
  "get_prop (Object_assign (filter (\<lambda>kv. fst kv \<notin> set positionKeys) position) d) ''top'' =
     get_prop d ''top''"
  "get_prop (Object_assign (filter (\<lambda>kv. fst kv \<notin> set positionKeys) position) d) ''maxWidth'' =
     get_prop d ''maxWidth''"
  "get_prop (Object_assign (filter (\<lambda>kv. fst kv \<notin> set positionKeys) position) d) ''maxHeight'' =
     get_prop d ''maxHeight''"
  "get_prop (Object_assign (filter (\<lambda>kv. fst kv \<notin> set positionKeys) position) d) ''minWidth'' =
     get_prop d ''minWidth''"
  "get_prop (Object_assign (filter (\<lambda>kv. fst kv \<notin> set positionKeys) position) d) ''minHeight'' =
     get_prop d ''minHeight''"
  "get_prop (Object_assign (filter (\<lambda>kv. fst kv \<notin> set positionKeys) position) d) ''width'' =
     get_prop d ''width''"
  "get_prop (Object_assign (filter (\<lambda>kv. fst kv \<notin> set positionKeys) position) d) ''height'' =
     get_prop d ''height''"
  "get_prop (Object_assign (filter (\<lambda>kv. fst kv \<notin> set positionKeys) position) d) ''rotateX'' =
     get_prop d ''rotateX''"
  "get_prop (Object_assign (filter (\<lambda>kv. fst kv \<notin> set positionKeys) position) d) ''rotateY'' =
     get_prop d ''rotateY''"
  "get_prop (Object_assign (filter (\<lambda>kv. fst kv \<notin> set positionKeys) position) d) ''rotateZ'' =
     get_prop d ''rotateZ''"
  "get_prop (Object_assign (filter (\<lambda>kv. fst kv \<notin> set positionKeys) position) d) ''scale'' =
     get_prop d ''scale''"
  "get_prop (Object_assign (filter (\<lambda>kv. fst kv \<notin> set positionKeys) position) d) ''transformOrigin'' =
     get_prop d ''transformOrigin''"
  "get_prop (Object_assign (filter (\<lambda>kv. fst kv \<notin> set positionKeys) position) d) ''translateX'' =
     get_prop d ''translateX''"
  "get_prop (Object_assign (filter (\<lambda>kv. fst kv \<notin> set positionKeys) position) d) ''translateY'' =
     get_prop d ''translateY''"
  "get_prop (Object_assign (filter (\<lambda>kv. fst kv \<notin> set positionKeys) position) d) ''translateZ'' =
     get_prop d ''translateZ''"
  "get_prop (Object_assign (filter (\<lambda>kv. fst kv \<notin> set positionKeys) position) d) ''zIndex'' =
     get_prop d ''zIndex''"
  by (rule get_current, simp add: positionKeys_def)+

lemma proposed_at:
  assumes "initialHelper q = None"
  shows
  "get_prop (fst (proposed position el q)) ''left'' =
     suggested_as (kind_of ''left'') el (get_prop position ''left'') (get_prop (data q) ''left'')"
  "get_prop (fst (proposed position el q)) ''top'' =
     suggested_as (kind_of ''top'') el (get_prop position ''top'') (get_prop (data q) ''top'')"
  "get_prop (fst (proposed position el q)) ''maxWidth'' =
     suggested_as (kind_of ''maxWidth'') el (get_prop position ''maxWidth'') (get_prop (data q) ''maxWidth'')"
  "get_prop (fst (proposed position el q)) ''maxHeight'' =
     suggested_as (kind_of ''maxHeight'') el (get_prop position ''maxHeight'') (get_prop (data q) ''maxHeight'')"
  "get_prop (fst (proposed position el q)) ''minWidth'' =
     suggested_as (kind_of ''minWidth'') el (get_prop position ''minWidth'') (get_prop (data q) ''minWidth'')"
  "get_prop (fst (proposed position el q)) ''minHeight'' =
     suggested_as (kind_of ''minHeight'') el (get_prop position ''minHeight'') (get_prop (data q) ''minHeight'')"
  "get_prop (fst (proposed position el q)) ''width'' =
     suggested_as (kind_of ''width'') el (get_prop position ''width'') (get_prop (data q) ''width'')"
  "get_prop (fst (proposed position el q)) ''height'' =
     suggested_as (kind_of ''height'') el (get_prop position ''height'') (get_prop (data q) ''height'')"
  "get_prop (fst (proposed position el q)) ''rotateX'' =
     suggested_as (kind_of ''rotateX'') el (get_prop position ''rotateX'') (get_prop (data q) ''rotateX'')"
  "get_prop (fst (proposed position el q)) ''rotateY'' =
     suggested_as (kind_of ''rotateY'') el (get_prop position ''rotateY'') (get_prop (data q) ''rotateY'')"
  "get_prop (fst (proposed position el q)) ''rotateZ'' =
     suggested_as (kind_of ''rotateZ'') el (get_prop position ''rotateZ'') (get_prop (data q) ''rotateZ'')"
  "get_prop (fst (proposed position el q)) ''scale'' =
     suggested_as (kind_of ''scale'') el (get_prop position ''scale'') (get_prop (data q) ''scale'')"
  "get_prop (fst (proposed position el q)) ''transformOrigin'' =
     suggested_as (kind_of ''transformOrigin'') el (get_prop position ''transformOrigin'') (get_prop (data q) ''transformOrigin'')"
  "get_prop (fst (proposed position el q)) ''translateX'' =
     suggested_as (kind_of ''translateX'') el (get_prop position ''translateX'') (get_prop (data q) ''translateX'')"
  "get_prop (fst (proposed position el q)) ''translateY'' =
     suggested_as (kind_of ''translateY'') el (get_prop position ''translateY'') (get_prop (data q) ''translateY'')"
  "get_prop (fst (proposed position el q)) ''translateZ'' =
     suggested_as (kind_of ''translateZ'') el (get_prop position ''translateZ'') (get_prop (data q) ''translateZ'')"
  "get_prop (fst (proposed position el q)) ''zIndex'' =
     suggested_as (kind_of ''zIndex'') el (get_prop position ''zIndex'') (get_prop (data q) ''zIndex'')"
  by (simp_all add: proposed_def Let_def split_beta get_up_size_full get_up_offset_full
      get_up_full [where el = el] assms get_current_keys kind_of_def)

lemma proposed_value:
  assumes "kind_of k \<noteq> KOther" and "initialHelper q = None"
  shows "get_prop (fst (proposed position el q)) k =
     suggested_as (kind_of k) el (get_prop position k) (get_prop (data q) k)"
proof -
  have "k \<in> set positionKeys" using assms(1) by (rule kind_of_positionKeys)
  then show ?thesis
    unfolding positionKeys_def using proposed_at [OF assms(2), of position el] by auto
qed

lemma proposed_cong:
  "data q = data q' \<Longrightarrow> initialHelper q = initialHelper q' \<Longrightarrow>
   proposed position el q = proposed position el q'"
  by (simp add: proposed_def)

lemma cache_style_hasData: "StyleCache_hasData (styleCache (cache_style el p)) el"
  by (simp add: cache_style_def StyleCache_hasData_def StyleCache_update_def)

lemma cache_style_idle: "StyleCache_hasData (styleCache p) el \<Longrightarrow> cache_style el p = p"
  by (simp add: cache_style_def)

lemma set_with_element:
  assumes "target_el (parent p) = Some el" and "\<not> not_positionable (parent p)"
    and "validators p = []" and "StyleCache_hasData (styleCache p) el"
    and "set_fields (fst (proposed position el p)) p = p" and "defaultData p \<noteq> None"
    and "(el_id el, ident p) \<in> set (um_callbacks um)"
  shows "Position_set position (p, um) =
     (p\<lparr>updateElementPromise := Some (um_requests um)\<rparr>, um\<lparr>um_requests := Suc (um_requests um)\<rparr>)"
  using assms
  by (auto simp: Position_set_def cache_style_idle updatePosition_def split_beta Let_def
      UpdateElementManager_add_def)

lemma set_with_element_first:
  assumes "target_el (parent p) = Some el" and "\<not> not_positionable (parent p)"
    and "validators p = []"
  shows "\<exists>P um'. Position_set position (p, um) = (P, um') \<and>
     data P = data (set_fields (fst (proposed position el (cache_style el p))) (cache_style el p)) \<and>
     parent P = parent p \<and> validators P = [] \<and> initialHelper P = initialHelper p \<and>
     StyleCache_hasData (styleCache P) el \<and> defaultData P \<noteq> None \<and>
     (el_id el, ident P) \<in> set (um_callbacks um')"
  using assms
  by (auto simp: Position_set_def updatePosition_def split_beta Let_def cache_style_frame
      UpdateElementManager_add_def set_fields_frame cache_style_hasData cache_style_more)

lemma set_twice_element:
  assumes el: "target_el (parent p) = Some el"
    and nv: "validators p = []" and nh: "initialHelper p = None"
    and n1: "\<And>k. get_prop position k \<noteq> Num NaN" and n2: "\<And>k. get_prop (data p) k \<noteq> Num NaN"
    and ow: "offsetWidth el \<noteq> Num NaN" and oh: "offsetHeight el \<noteq> Num NaN"
    and s1: "Position_set position (p, um) = (P, um')"
  shows "Position_set position (P, um') =
     (P\<lparr>updateElementPromise := updateElementPromise (fst (Position_set position (P, um')))\<rparr>,
      um'\<lparr>um_requests := um_requests (snd (Position_set position (P, um')))\<rparr>)"
proof (cases "not_positionable (parent p)")
  case True
  then have "P = p" "um' = um" using s1 by (simp_all add: Position_set_def)
  then show ?thesis using True by (simp add: Position_set_def)
next
  case False
  let ?q = "cache_style el p"
  let ?cp1 = "fst (proposed position el ?q)"
  let ?P1 = "set_fields ?cp1 ?q"
  have P: "data P = data ?P1" "parent P = parent p" "validators P = []" "initialHelper P = None"
    "StyleCache_hasData (styleCache P) el" "defaultData P \<noteq> None"
    "(el_id el, ident P) \<in> set (um_callbacks um')"
    using set_with_element_first [OF el False nv, of position um] s1 nh by auto
  have hq: "initialHelper ?q = None" by (simp add: cache_style_more nh)
  have dq: "\<And>k. get_prop (data ?q) k = get_prop (data p) k" by (simp add: cache_style_frame)
  have d1: "get_prop (data P) k =
      (case stored_as (kind_of k) (suggested_as (kind_of k) el (get_prop position k) (get_prop (data p) k)) of
         Some v \<Rightarrow> v | None \<Rightarrow> get_prop (data p) k)" if "kind_of k \<noteq> KOther" for k
    using that
    by (simp add: P(1) data_set_fields applied_def proposed_value [OF that hq] dq cache_style_frame
        split: option.splits)
  have cp2: "get_prop (fst (proposed position el P)) k =
      suggested_as (kind_of k) el (get_prop position k) (get_prop (data P) k)" if "kind_of k \<noteq> KOther" for k
    using that P(4) by (rule proposed_value)
  have idle: "set_fields (fst (proposed position el P)) P = P"
  proof (rule set_fields_idle)
    fix k assume k: "kind_of k \<noteq> KOther"
    show "get_prop (fst (proposed position el P)) k \<noteq> Num NaN"
      using settle [OF n1 [of k] n2 [of k] ow oh, of "kind_of k"]
      by (simp add: cp2 [OF k] d1 [OF k])
  next
    fix k v assume a: "applied (fst (proposed position el P)) k = Some v"
    then have k: "kind_of k \<noteq> KOther"
      by (auto simp: applied_def)
    show "get_prop (data P) k = v"
      using settle [OF n1 [of k] n2 [of k] ow oh, of "kind_of k"] a
      by (simp add: applied_def cp2 [OF k] d1 [OF k])
  qed
  have "Position_set position (P, um') =
      (P\<lparr>updateElementPromise := Some (um_requests um')\<rparr>, um'\<lparr>um_requests := Suc (um_requests um')\<rparr>)"
    using el False P(2,3,5,6,7) idle by (intro set_with_element) auto
  then show ?thesis by simp
qed

text \<open>
  C9, as the code has it. Let no value of the object passed to \<open>set\<close> be \<open>NaN\<close>.
  Applying the field blocks of \<open>set\<close> to the same proposal a second time changes
  nothing: no value, no flag of the change set. On an instance without a connected target
  element a second \<open>set\<close> with the same object leaves the whole state as the first
  call left it, the subscribers' log included. On an instance with a connected element,
  without validators and without an initial helper, whose canonical data and measured
  element size hold no \<open>NaN\<close>, the second call changes nothing but the stored
  element-update promise and the count of requests to the update manager: canonical data,
  change set and registered callbacks are as after the first call.
\<close>

theorem set_twice:
  assumes "\<forall>k. get_prop position k \<noteq> Num NaN"
  shows "set_fields position (set_fields position p) = set_fields position p \<and>
    (target_el (parent p) = None \<longrightarrow>
       Position_set position (Position_set position (p, um)) = Position_set position (p, um)) \<and>
    (\<forall>el. target_el (parent p) = Some el \<and> validators p = [] \<and> initialHelper p = None \<and>
        (\<forall>k. get_prop (data p) k \<noteq> Num NaN) \<and>
        offsetWidth el \<noteq> Num NaN \<and> offsetHeight el \<noteq> Num NaN \<longrightarrow>
       Position_set position (Position_set position (p, um)) =
         ((fst (Position_set position (p, um)))
            \<lparr>updateElementPromise :=
               updateElementPromise (fst (Position_set position (Position_set position (p, um))))\<rparr>,
          (snd (Position_set position (p, um)))
            \<lparr>um_requests :=
               um_requests (snd (Position_set position (Position_set position (p, um))))\<rparr>))"
proof (intro conjI impI allI)
  show "set_fields position (set_fields position p) = set_fields position p"
    using assms by (intro set_fields_twice) blast
next
  assume "target_el (parent p) = None"
  then show "Position_set position (Position_set position (p, um)) = Position_set position (p, um)"
    using assms by (intro set_twice_no_element) blast+
next
  fix el
  assume a: "target_el (parent p) = Some el \<and> validators p = [] \<and> initialHelper p = None \<and>
        (\<forall>k. get_prop (data p) k \<noteq> Num NaN) \<and>
        offsetWidth el \<noteq> Num NaN \<and> offsetHeight el \<noteq> Num NaN"
  obtain P um' where s1: "Position_set position (p, um) = (P, um')"
    by (cases "Position_set position (p, um)") auto
  have "Position_set position (P, um') =
     (P\<lparr>updateElementPromise := updateElementPromise (fst (Position_set position (P, um')))\<rparr>,
      um'\<lparr>um_requests := um_requests (snd (Position_set position (P, um')))\<rparr>)"
    using a assms s1 by (intro set_twice_element [where p = p and um = um and el = el]) blast+
  then show "Position_set position (Position_set position (p, um)) =
         ((fst (Position_set position (p, um)))
            \<lparr>updateElementPromise :=
               updateElementPromise (fst (Position_set position (Position_set position (p, um))))\<rparr>,
          (snd (Position_set position (p, um)))
            \<lparr>um_requests :=
               um_requests (snd (Position_set position (Position_set position (p, um))))\<rparr>)"
    by (simp add: s1)
qed

theorem set_twice_witness:
  "Position_set [(''left'', Num (Finite (5 / 2)))]
     (Position_set [(''left'', Num (Finite (5 / 2)))]
        (Position_new 0 NoParent options_example None [], um_empty)) =
   Position_set [(''left'', Num (Finite (5 / 2)))]
     (Position_new 0 NoParent options_example None [], um_empty) \<and>
   data (fst (Position_set [(''left'', Num (Finite (5 / 2)))]
     (Position_set [(''left'', Num (Finite (5 / 2)))]
        (Position_new 0 (ElementParent el_example) options_example None [], um_empty)))) =
   data (fst (Position_set [(''left'', Num (Finite (5 / 2)))]
        (Position_new 0 (ElementParent el_example) options_example None [], um_empty)))"
proof -
  let ?pos = "[(''left'', Num (Finite (5 / 2)))]"
  let ?p = "Position_new 0 NoParent options_example None []"
  let ?q = "Position_new 0 (ElementParent el_example) options_example None []"
  have n: "\<forall>k. get_prop ?pos k \<noteq> Num NaN"
    by (simp add: get_prop_def)
  have t: "target_el (parent ?p) = None"
    by (simp add: Position_new_def)
  have d: "data ?q = [(''height'', Num (Finite 100)), (''left'', Num (Finite 0)), (''maxHeight'', Null),
      (''maxWidth'', Null), (''minHeight'', Null), (''minWidth'', Null), (''rotateX'', Null),
      (''rotateY'', Null), (''rotateZ'', Null), (''scale'', Null), (''top'', Num (Finite 0)),
      (''transformOrigin'', Str ''top left''), (''translateX'', Null), (''translateY'', Null),
      (''translateZ'', Null), (''width'', Num (Finite 200)), (''zIndex'', Null)]"
    by code_simp
  have nd: "\<forall>k. get_prop (data ?q) k \<noteq> Num NaN"
    unfolding d by (simp add: get_prop_def)
  have e: "target_el (parent ?q) = Some el_example \<and> validators ?q = [] \<and> initialHelper ?q = None \<and>
      (\<forall>k. get_prop (data ?q) k \<noteq> Num NaN) \<and>
      offsetWidth el_example \<noteq> Num NaN \<and> offsetHeight el_example \<noteq> Num NaN"
    using nd by (simp add: Position_new_def el_example_def)
  have 1: "Position_set ?pos (Position_set ?pos (?p, um_empty)) = Position_set ?pos (?p, um_empty)"
    using set_twice [OF n, of ?p um_empty] t by blast
  have "Position_set ?pos (Position_set ?pos (?q, um_empty)) =
      ((fst (Position_set ?pos (?q, um_empty)))
         \<lparr>updateElementPromise :=
            updateElementPromise (fst (Position_set ?pos (Position_set ?pos (?q, um_empty))))\<rparr>,
       (snd (Position_set ?pos (?q, um_empty)))
         \<lparr>um_requests := um_requests (snd (Position_set ?pos (Position_set ?pos (?q, um_empty))))\<rparr>)"
    using set_twice [OF n, of ?q um_empty] e by blast
  from this [THEN arg_cong, of "\<lambda>s. data (fst s)"]
  have 2: "data (fst (Position_set ?pos (Position_set ?pos (?q, um_empty)))) =
      data (fst (Position_set ?pos (?q, um_empty)))"
    by simp
  show ?thesis
    using 1 2 by blast
qed

text \<open>
  The claim C9 fails on \<open>state_nudged\<close>, whose validator is not idempotent: the
  canonical \<open>top\<close> is 1; a further \<open>set\<close> with the canonical data itself, or with the
  object of the first call, makes it 2. It fails on \<open>state_NaN\<close> too: the canonical
  \<open>left\<close> is \<open>NaN\<close>, the change set is clear, and a second \<open>set({ left: NaN })\<close>
  notifies the subscriber once more.
\<close>

theorem set_again_changes:
  "get_prop (data (fst state_nudged)) ''top'' = Num (Finite 1) \<and>
   get_prop (data (fst (Position_set (data (fst state_nudged)) state_nudged))) ''top'' = Num (Finite 2) \<and>
   get_prop (data (fst (Position_set [(''left'', Num (Finite 5))] state_nudged))) ''top'' = Num (Finite 2) \<and>
   get_prop (data (fst state_NaN)) ''left'' = Num NaN \<and>
   \<not> hasChange (positionChangeSet (fst state_NaN)) \<and>
   length (delivered (fst state_NaN)) = 2 \<and>
   length (delivered (fst (Position_set [(''left'', Num NaN)] state_NaN))) = 3"
  by code_simp

end
